theory Spec2Isabelle
  imports Complex_Main "HOL-Library.Multiset" "HOL-Library.Product_Lexorder"
begin

section \<open>Values and arrays\<close>

text \<open>
  The cells of the numpy arrays of \<^verbatim>\<open>GeoData.py\<close> are floating-point numbers: a finite
  number, not-a-number, or one of the two infinities. Finite numbers are exact rationals
  here: rounding and overflow are outside this development.
\<close>

datatype val = Fin rat | NaN | PInf | NInf

fun isnan :: "val \<Rightarrow> bool" where
  "isnan NaN = True"
| "isnan _ = False"

fun isfinite :: "val \<Rightarrow> bool" where
  "isfinite (Fin _) = True"
| "isfinite _ = False"

text \<open>
  Arithmetic and comparison as floating point has them: not-a-number propagates and
  compares false with everything, an infinity absorbs finite numbers, and the sum of the
  two opposite infinities is not-a-number.
\<close>

fun vneg :: "val \<Rightarrow> val" where
  "vneg (Fin a) = Fin (- a)"
| "vneg NaN = NaN"
| "vneg PInf = NInf"
| "vneg NInf = PInf"

fun vadd :: "val \<Rightarrow> val \<Rightarrow> val" where
  "vadd (Fin a) (Fin b) = Fin (a + b)"
| "vadd NaN _ = NaN"
| "vadd _ NaN = NaN"
| "vadd PInf NInf = NaN"
| "vadd NInf PInf = NaN"
| "vadd PInf _ = PInf"
| "vadd _ PInf = PInf"
| "vadd NInf _ = NInf"
| "vadd _ NInf = NInf"

definition vsub :: "val \<Rightarrow> val \<Rightarrow> val" where
  "vsub a b = vadd a (vneg b)"

text \<open>Division by a count; the quotient of zero by zero is not-a-number.\<close>

definition vdivn :: "val \<Rightarrow> nat \<Rightarrow> val" where
  "vdivn v n =
     (if n = 0 then NaN else case v of Fin a \<Rightarrow> Fin (a / of_nat n) | _ \<Rightarrow> v)"

fun vlt :: "val \<Rightarrow> val \<Rightarrow> bool" where
  "vlt (Fin a) (Fin b) = (a < b)"
| "vlt NaN _ = False"
| "vlt _ NaN = False"
| "vlt _ NInf = False"
| "vlt NInf _ = True"
| "vlt PInf _ = False"
| "vlt _ PInf = True"

fun vle :: "val \<Rightarrow> val \<Rightarrow> bool" where
  "vle (Fin a) (Fin b) = (a \<le> b)"
| "vle NaN _ = False"
| "vle _ NaN = False"
| "vle NInf _ = True"
| "vle _ NInf = False"
| "vle _ PInf = True"
| "vle PInf _ = False"

definition veq :: "val \<Rightarrow> val \<Rightarrow> bool" where
  "veq a b \<longleftrightarrow> \<not> isnan a \<and> \<not> isnan b \<and> a = b"

text \<open>
  An array has an element type: floating point or integer. The cells of an integer
  array are whole numbers, and a store into an integer array converts the value as
  Python's \<^verbatim>\<open>int\<close> does: a finite number loses its fraction (towards zero), and
  not-a-number and the infinities, which have no integer, raise.
\<close>

datatype dtype = Float64 | Int64

text \<open>The exceptions the modelled code raises, with the message where the source gives one.\<close>

datatype error =
    AssertionError string
  | ValueError string
  | OverflowError string
  | IndexError
  | KeyError string
  | External string

definition trunc :: "rat \<Rightarrow> int" where
  "trunc r = (if 0 \<le> r then \<lfloor>r\<rfloor> else \<lceil>r\<rceil>)"

fun store_cell :: "dtype \<Rightarrow> val \<Rightarrow> error + val" where
  "store_cell Float64 v = Inr v"
| "store_cell Int64 (Fin r) = Inr (Fin (of_int (trunc r)))"
| "store_cell Int64 NaN = Inl (ValueError ''cannot convert float NaN to integer'')"
| "store_cell Int64 _ = Inl (OverflowError ''cannot convert float infinity to integer'')"

fun is_whole :: "val \<Rightarrow> bool" where
  "is_whole (Fin r) = (of_int \<lfloor>r\<rfloor> = r)"
| "is_whole _ = False"

text \<open>
  The attributes \<^verbatim>\<open>times\<close>, \<^verbatim>\<open>dataloc\<close> and \<^verbatim>\<open>sensorloc\<close> and the argument
  \<^verbatim>\<open>new_coords\<close> are arrays of one or two axes: \<open>A1 dt xs\<close> has shape \<open>(length xs,)\<close>
  and \<open>A2 dt c rows\<close> has shape \<open>(length rows, c)\<close>, both of element type \<open>dt\<close>. The number
  of columns is kept beside the rows because an array may have no row. A well-formed
  array has rows of that length and, when its element type is integer, whole cells.
\<close>

datatype ndarray = A1 dtype "val list" | A2 dtype nat "val list list"

definition wf_cells :: "dtype \<Rightarrow> val list \<Rightarrow> bool" where
  "wf_cells dt xs \<longleftrightarrow> (dt = Int64 \<longrightarrow> list_all is_whole xs)"

fun wf_ndarray :: "ndarray \<Rightarrow> bool" where
  "wf_ndarray (A1 dt xs) = wf_cells dt xs"
| "wf_ndarray (A2 dt c rows) = (list_all (\<lambda>r. length r = c) rows \<and> wf_cells dt (concat rows))"

fun shape :: "ndarray \<Rightarrow> nat list" where
  "shape (A1 dt xs) = [length xs]"
| "shape (A2 dt c rows) = [length rows, c]"

fun ravel :: "ndarray \<Rightarrow> val list" where
  "ravel (A1 dt xs) = xs"
| "ravel (A2 dt c rows) = concat rows"

definition ebind :: "error + 'a \<Rightarrow> ('a \<Rightarrow> error + 'b) \<Rightarrow> error + 'b" where
  "ebind m f = (case m of Inl e \<Rightarrow> Inl e | Inr x \<Rightarrow> f x)"

text \<open>
  A field of the \<^verbatim>\<open>data\<close> dictionary has one, two or three axes: \<open>F2 c rows\<close> has
  shape \<open>(length rows, c)\<close> (locations by times) and \<open>F3 h w planes\<close> has shape
  \<open>(length planes, h, w)\<close> (an image of \<open>h\<close> rows and \<open>w\<close> columns per time). Fields are
  numpy arrays of floating-point numbers, where not-a-number marks a missing
  measurement; the pandas alternative of the source is not modelled.
\<close>

datatype field = F1 "val list" | F2 nat "val list list" | F3 nat nat "val list list list"

fun wf_field :: "field \<Rightarrow> bool" where
  "wf_field (F1 xs) = True"
| "wf_field (F2 c rows) = list_all (\<lambda>r. length r = c) rows"
| "wf_field (F3 h w planes) =
     list_all (\<lambda>p. length p = h \<and> list_all (\<lambda>r. length r = w) p) planes"

fun fshape :: "field \<Rightarrow> nat list" where
  "fshape (F1 xs) = [length xs]"
| "fshape (F2 c rows) = [length rows, c]"
| "fshape (F3 h w planes) = [length planes, h, w]"

fun fravel :: "field \<Rightarrow> val list" where
  "fravel (F1 xs) = xs"
| "fravel (F2 c rows) = concat rows"
| "fravel (F3 h w planes) = concat (concat planes)"

text \<open>
  An instance of the class \<^verbatim>\<open>GeoData\<close>. The dictionary \<^verbatim>\<open>data\<close> is a list of
  pairs in the order of its keys; a dictionary has no key twice.
\<close>

record geodata =
  data :: "(string \<times> field) list"
  coordnames :: string
  dataloc :: ndarray
  sensorloc :: ndarray
  times :: ndarray
  expdesc :: string

definition keys :: "(string \<times> field) list \<Rightarrow> string list" where
  "keys d = map fst d"

definition wf_geodata :: "geodata \<Rightarrow> bool" where
  "wf_geodata g \<longleftrightarrow>
     distinct (keys (data g)) \<and> list_all (\<lambda>kv. wf_field (snd kv)) (data g) \<and>
     wf_ndarray (dataloc g) \<and> wf_ndarray (sensorloc g) \<and> wf_ndarray (times g)"

text \<open>The assignment \<^verbatim>\<open>d[k] = v\<close> to a key the dictionary has keeps the key's place.\<close>

fun dict_set :: "(string \<times> field) list \<Rightarrow> string \<Rightarrow> field \<Rightarrow> (string \<times> field) list" where
  "dict_set [] k v = [(k, v)]"
| "dict_set ((k', v') # d) k v = (if k' = k then (k, v) # d else (k', v') # dict_set d k v)"

definition dict_get :: "(string \<times> field) list \<Rightarrow> string \<Rightarrow> error + field" where
  "dict_get d k = (case map_of d k of None \<Rightarrow> Inl (KeyError k) | Some v \<Rightarrow> Inr v)"

section \<open>Time normalisation: \<^verbatim>\<open>timerepair\<close>\<close>

definition diff :: "val list \<Rightarrow> val list" where
  "diff xs = map2 (\<lambda>b a. vsub b a) (tl xs) xs"

definition vsum :: "val list \<Rightarrow> val" where
  "vsum xs = foldl vadd (Fin 0) xs"

definition mean :: "val list \<Rightarrow> val" where
  "mean xs = vdivn (vsum xs) (length xs)"

definition roll_left :: "'a list \<Rightarrow> 'a list" where
  "roll_left xs = (case xs of [] \<Rightarrow> [] | x # r \<Rightarrow> r @ [x])"

definition column_stack :: "dtype \<Rightarrow> val list \<Rightarrow> val list \<Rightarrow> ndarray" where
  "column_stack dt xs ys = A2 dt 2 (map2 (\<lambda>a b. [a, b]) xs ys)"

text \<open>
  The part of \<^verbatim>\<open>timerepair\<close> after the array has been flattened, for the element type
  \<open>dt\<close> of the array. An array of size one gets an end 60 seconds after its start. An
  empty array reaches \<^verbatim>\<open>timear2[-1]\<close>, which raises \<^verbatim>\<open>IndexError\<close>. Otherwise
  \<^verbatim>\<open>timear2\<close> is the array rolled left by one, of the same element type, and its last
  cell is overwritten with its last-but-one cell plus the mean difference: the mean is a
  floating-point number, and the store converts the sum to the element type.
\<close>

definition timerepair_flat :: "dtype \<Rightarrow> val list \<Rightarrow> error + ndarray" where
  "timerepair_flat dt timear =
     (if length timear = 1 then Inr (A2 dt 2 [[timear ! 0, vadd (timear ! 0) (Fin 60)]])
      else if timear = [] then Inl IndexError
      else
        let avdiff = mean (diff timear);
            timear2 = roll_left timear;
            n = length timear2
        in ebind (store_cell dt (vadd (timear2 ! (n - 2)) avdiff)) (\<lambda>v.
             Inr (column_stack dt timear (timear2[n - 1 := v]))))"

fun timerepair :: "ndarray \<Rightarrow> error + ndarray" where
  "timerepair (A2 dt c rows) =
     (if c = 2 then Inr (A2 dt c rows) else timerepair_flat dt (concat rows))"
| "timerepair (A1 dt xs) = timerepair_flat dt xs"

text \<open>The warning of \<^verbatim>\<open>timerepair\<close> is logged exactly when the flattened array has size one.\<close>

fun timerepair_warns :: "ndarray \<Rightarrow> bool" where
  "timerepair_warns (A2 dt c rows) = (c \<noteq> 2 \<and> length (concat rows) = 1)"
| "timerepair_warns (A1 dt xs) = (length xs = 1)"





text \<open>A dataset with the given \<^verbatim>\<open>times\<close> and nothing else, for concrete evaluations.\<close>

definition dataset_of_times :: "ndarray \<Rightarrow> geodata" where
  "dataset_of_times t =
     \<lparr>data = [], coordnames = ''Cartesian'', dataloc = A2 Float64 3 [],
      sensorloc = A1 Float64 [NaN, NaN, NaN],
      times = t, expdesc = ''''\<rparr>"

section \<open>Time registration: \<^verbatim>\<open>timeregister\<close>\<close>

text \<open>\<^verbatim>\<open>np.argwhere\<close> on a one-dimensional boolean array: the indices of its true cells.\<close>

definition argwhere :: "bool list \<Rightarrow> nat list" where
  "argwhere bs = filter (\<lambda>i. bs ! i) [0..<length bs]"

definition arange :: "nat \<Rightarrow> nat \<Rightarrow> nat list" where
  "arange a b = [a..<b]"

text \<open>
  One pass of the loop of \<^verbatim>\<open>timeregister\<close>, for the row \<open>l\<close> of the first table and the
  rows of the second, each of two cells: \<^verbatim>\<open>list1\<close> holds the rows that start before
  \<open>l\<close> starts, \<^verbatim>\<open>list2\<close> the rows that end after \<open>l\<close> ends.
\<close>

definition overlap_row :: "val list list \<Rightarrow> val list \<Rightarrow> nat list" where
  "overlap_row rows2 l =
     (let list1 = argwhere (map (\<lambda>r. vlt (r ! 0) (l ! 0)) rows2);
          list2 = argwhere (map (\<lambda>r. vlt (l ! 1) (r ! 1)) rows2)
      in if list1 = [] \<or> list2 = [] then []
         else arange (last list1) (hd list2 + 1))"

text \<open>
  The loop runs over the rows of \<^verbatim>\<open>times1\<close>. Both tables come out of
  \<^verbatim>\<open>timerepair\<close>, which returns arrays of shape \<open>(N, 2)\<close> only; the last equation is for
  the other shapes, which do not reach the loop.
\<close>

fun overlap :: "ndarray \<Rightarrow> ndarray \<Rightarrow> error + nat list list" where
  "overlap (A2 dt1 c1 rows1) (A2 dt2 c2 rows2) =
     (if c1 = 2 \<and> c2 = 2 then Inr (map (overlap_row rows2) rows1) else Inl IndexError)"
| "overlap _ _ = Inl IndexError"

definition timeregister :: "geodata \<Rightarrow> geodata \<Rightarrow> error + nat list list" where
  "timeregister self self2 =
     ebind (timerepair (times self)) (\<lambda>times1.
     ebind (timerepair (times self2)) (\<lambda>times2.
       overlap times1 times2))"

text \<open>
  The rule of the specification's section 4.3, word for word, for comparison with
  \<open>overlap_row\<close>: \<open>A\<close> holds the rows of the second table whose start is greater than
  the start of \<open>l\<close>, \<open>B\<close> those whose end is less than the end of \<open>l\<close>.
\<close>

definition overlap_row_spec :: "val list list \<Rightarrow> val list \<Rightarrow> nat list" where
  "overlap_row_spec rows2 l =
     (let A = filter (\<lambda>i. vlt (l ! 0) (rows2 ! i ! 0)) [0..<length rows2];
          B = filter (\<lambda>i. vlt (rows2 ! i ! 1) (l ! 1)) [0..<length rows2]
      in if A = [] \<or> B = [] then [] else [last A ..< Suc (hd B)])"

section \<open>Masked comparison: \<^verbatim>\<open>np.ma.allequal\<close>\<close>

text \<open>
  \<^verbatim>\<open>np.ma.allequal(a, b)\<close>, with each operand masked where it is not-a-number: the mask
  of the comparison is the union of the two masks, a masked position counts as equal,
  and the other positions are compared exactly. Operands of different shapes are
  broadcast against each other as numpy does (shapes aligned at the last axis, an axis of
  length one repeated), and shapes that cannot be broadcast raise \<^verbatim>\<open>ValueError\<close>.
\<close>

definition broadcast_dim :: "nat \<Rightarrow> nat \<Rightarrow> nat option" where
  "broadcast_dim a b =
     (if a = b then Some a else if a = 1 then Some b else if b = 1 then Some a else None)"

definition pad_shape :: "nat \<Rightarrow> nat list \<Rightarrow> nat list" where
  "pad_shape n s = replicate (n - length s) 1 @ s"

definition broadcast_shapes :: "nat list \<Rightarrow> nat list \<Rightarrow> nat list option" where
  "broadcast_shapes s1 s2 =
     (let n = max (length s1) (length s2);
          ds = map2 broadcast_dim (pad_shape n s1) (pad_shape n s2)
      in if list_all (\<lambda>d. d \<noteq> None) ds then Some (map the ds) else None)"

fun chunks :: "nat \<Rightarrow> nat \<Rightarrow> 'a list \<Rightarrow> 'a list list" where
  "chunks 0 m xs = []"
| "chunks (Suc k) m xs = take m xs # chunks k m (drop m xs)"

fun broadcast_to :: "nat list \<Rightarrow> nat list \<Rightarrow> 'a list \<Rightarrow> 'a list" where
  "broadcast_to (t # ts) (s # ss) xs =
     (if s = t then concat (map (broadcast_to ts ss) (chunks s (prod_list ss) xs))
      else concat (replicate t (broadcast_to ts ss xs)))"
| "broadcast_to _ _ xs = xs"

definition masked_equal :: "val \<Rightarrow> val \<Rightarrow> bool" where
  "masked_equal x y \<longleftrightarrow> isnan x \<or> isnan y \<or> x = y"

definition ma_allequal :: "nat list \<Rightarrow> val list \<Rightarrow> nat list \<Rightarrow> val list \<Rightarrow> error + bool" where
  "ma_allequal s1 xs s2 ys =
     (if s1 = s2 then Inr (list_all2 masked_equal xs ys)
      else case broadcast_shapes s1 s2 of
        None \<Rightarrow> Inl (ValueError ''operands could not be broadcast together'')
      | Some t \<Rightarrow>
          Inr (list_all2 masked_equal
                (broadcast_to t (pad_shape (length t) s1) xs)
                (broadcast_to t (pad_shape (length t) s2) ys)))"

definition nd_allequal :: "ndarray \<Rightarrow> ndarray \<Rightarrow> error + bool" where
  "nd_allequal a b = ma_allequal (shape a) (ravel a) (shape b) (ravel b)"

definition field_allequal :: "field \<Rightarrow> field \<Rightarrow> error + bool" where
  "field_allequal a b = ma_allequal (fshape a) (fravel a) (fshape b) (fravel b)"

section \<open>Structural equality: \<^verbatim>\<open>__eq__\<close>\<close>

text \<open>The loop over \<^verbatim>\<open>datakeys\<close>: it returns at the first field that differs.\<close>

fun eq_fields ::
  "string list \<Rightarrow> (string \<times> field) list \<Rightarrow> (string \<times> field) list \<Rightarrow> error + bool" where
  "eq_fields [] d1 d2 = Inr True"
| "eq_fields (k # ks) d1 d2 =
     (case dict_get d1 k of Inl e \<Rightarrow> Inl e | Inr a \<Rightarrow>
     (case dict_get d2 k of Inl e \<Rightarrow> Inl e | Inr b \<Rightarrow>
     (case field_allequal a b of Inl e \<Rightarrow> Inl e | Inr same \<Rightarrow>
        if same then eq_fields ks d1 d2 else Inr False)))"

definition GeoData_eq :: "geodata \<Rightarrow> geodata \<Rightarrow> error + bool" where
  "GeoData_eq self self2 =
     (if set (keys (data self)) \<noteq> set (keys (data self2)) then Inr False
      else
        ebind (eq_fields (keys (data self)) (data self) (data self2)) (\<lambda>same.
        if \<not> same then Inr False
        else if coordnames self \<noteq> coordnames self2 then Inr False
        else
          ebind (nd_allequal (dataloc self) (dataloc self2)) (\<lambda>same.
          if \<not> same then Inr False
          else
            ebind (nd_allequal (sensorloc self) (sensorloc self2)) (\<lambda>same.
            if \<not> same then Inr False
            else
              ebind (nd_allequal (times self) (times self2)) (\<lambda>same.
              if \<not> same then Inr False else Inr True)))))"

section \<open>Time augmentation: \<^verbatim>\<open>add_times\<close>\<close>

text \<open>
  \<^verbatim>\<open>np.argsort\<close> orders the indices by their keys: minus infinity, the finite numbers,
  plus infinity, and not-a-number after all of them. Indices of equal keys keep their
  order here, as numpy's sort does on short arrays; numpy does not promise an order
  among equal keys on longer ones.
\<close>

fun sortkey :: "val \<Rightarrow> nat \<times> rat" where
  "sortkey NInf = (0, 0)"
| "sortkey (Fin r) = (1, r)"
| "sortkey PInf = (2, 0)"
| "sortkey NaN = (3, 0)"

definition argsort :: "val list \<Rightarrow> nat list" where
  "argsort ks = map snd (sort_key (\<lambda>p. sortkey (fst p)) (zip ks [0..<length ks]))"

fun as2d :: "ndarray \<Rightarrow> nat \<times> val list list" where
  "as2d (A1 dt xs) = (length xs, [xs])"
| "as2d (A2 dt c rows) = (c, rows)"

fun dtype_of :: "ndarray \<Rightarrow> dtype" where
  "dtype_of (A1 dt xs) = dt"
| "dtype_of (A2 dt c rows) = dt"

text \<open>The element type of an array built from two: integer only when both are.\<close>

definition promote :: "dtype \<Rightarrow> dtype \<Rightarrow> dtype" where
  "promote a b = (if a = Int64 \<and> b = Int64 then Int64 else Float64)"

definition vstack :: "ndarray \<Rightarrow> ndarray \<Rightarrow> error + ndarray" where
  "vstack a b =
     (if fst (as2d a) = fst (as2d b)
      then Inr (A2 (promote (dtype_of a) (dtype_of b)) (fst (as2d a)) (snd (as2d a) @ snd (as2d b)))
      else Inl (ValueError ''all the input array dimensions except for the concatenation axis must match exactly''))"

text \<open>The column \<^verbatim>\<open>a[:, k]\<close> of an array.\<close>

fun column :: "nat \<Rightarrow> ndarray \<Rightarrow> error + val list" where
  "column k (A2 dt c rows) = (if k < c then Inr (map (\<lambda>r. r ! k) rows) else Inl IndexError)"
| "column k (A1 dt xs) = Inl IndexError"

text \<open>The rows \<^verbatim>\<open>a[idx]\<close> of an array, for a list of indices.\<close>

fun take_rows :: "nat list \<Rightarrow> ndarray \<Rightarrow> error + ndarray" where
  "take_rows idx (A2 dt c rows) =
     (if list_all (\<lambda>i. i < length rows) idx then Inr (A2 dt c (map (\<lambda>i. rows ! i) idx))
      else Inl IndexError)"
| "take_rows idx (A1 dt xs) =
     (if list_all (\<lambda>i. i < length xs) idx then Inr (A1 dt (map (\<lambda>i. xs ! i) idx))
      else Inl IndexError)"

text \<open>
  \<^verbatim>\<open>np.hstack\<close> joins arrays of one axis end to end and arrays of more axes along their
  second axis; \<^verbatim>\<open>outarr[:, idx]\<close> picks along the second axis.
\<close>

fun hstack :: "field \<Rightarrow> field \<Rightarrow> error + field" where
  "hstack (F1 xs) (F1 ys) = Inr (F1 (xs @ ys))"
| "hstack (F2 c1 r1) (F2 c2 r2) =
     (if length r1 = length r2 then Inr (F2 (c1 + c2) (map2 (@) r1 r2))
      else Inl (ValueError ''all the input array dimensions except for the concatenation axis must match exactly''))"
| "hstack (F3 h1 w1 p1) (F3 h2 w2 p2) =
     (if length p1 = length p2 \<and> w1 = w2 then Inr (F3 (h1 + h2) w1 (map2 (@) p1 p2))
      else Inl (ValueError ''all the input array dimensions except for the concatenation axis must match exactly''))"
| "hstack _ _ =
     Inl (ValueError ''all the input arrays must have same number of dimensions'')"

fun take_axis1 :: "nat list \<Rightarrow> field \<Rightarrow> error + field" where
  "take_axis1 idx (F1 xs) = Inl IndexError"
| "take_axis1 idx (F2 c rows) =
     (if list_all (\<lambda>i. i < c) idx
      then Inr (F2 (length idx) (map (\<lambda>r. map (\<lambda>i. r ! i) idx) rows))
      else Inl IndexError)"
| "take_axis1 idx (F3 h w planes) =
     (if list_all (\<lambda>i. i < h) idx
      then Inr (F3 (length idx) w (map (\<lambda>p. map (\<lambda>i. p ! i) idx) planes))
      else Inl IndexError)"

text \<open>
  The loop over the fields. Each pass writes its result into \<^verbatim>\<open>self.data\<close>, so an
  exception leaves the fields of the earlier passes rewritten.
\<close>

fun add_times_loop ::
  "string list \<Rightarrow> nat list \<Rightarrow> (string \<times> field) list \<Rightarrow> (string \<times> field) list
     \<Rightarrow> (string \<times> field) list \<times> error option" where
  "add_times_loop [] s_ind d d2 = (d, None)"
| "add_times_loop (k # ks) s_ind d d2 =
     (case ebind (dict_get d k) (\<lambda>a. ebind (dict_get d2 k) (\<lambda>b.
             ebind (hstack a b) (take_axis1 s_ind))) of
        Inl e \<Rightarrow> (d, Some e)
      | Inr v \<Rightarrow> add_times_loop ks s_ind (dict_set d k v) d2)"

text \<open>
  \<^verbatim>\<open>add_times\<close> changes \<^verbatim>\<open>self\<close> in place: the result is the dataset as the call leaves
  it and the exception, if one was raised.
\<close>

definition add_times :: "geodata \<Rightarrow> geodata \<Rightarrow> geodata \<times> error option" where
  "add_times self self2 =
     (if set (keys (data self)) \<noteq> set (keys (data self2))
      then (self, Some (AssertionError ''Data must have the same names.''))
      else if coordnames self \<noteq> coordnames self2
      then (self, Some (AssertionError ''Must be same coordinate same.''))
      else case nd_allequal (dataloc self) (dataloc self2) of
        Inl e \<Rightarrow> (self, Some e)
      | Inr False \<Rightarrow> (self, Some (AssertionError ''Location points must be the same''))
      | Inr True \<Rightarrow>
      (case nd_allequal (sensorloc self) (sensorloc self2) of
        Inl e \<Rightarrow> (self, Some e)
      | Inr False \<Rightarrow> (self, Some (AssertionError ''Sensor Locations must be the same''))
      | Inr True \<Rightarrow>
      (case ebind (timerepair (times self)) (\<lambda>t1.
            ebind (timerepair (times self2)) (\<lambda>t2. vstack t1 t2)) of
        Inl e \<Rightarrow> (self, Some e)
      | Inr alltimes \<Rightarrow>
      (case column 0 alltimes of
        Inl e \<Rightarrow> (self, Some e)
      | Inr ks \<Rightarrow>
      (let s_ind = argsort ks in
       case take_rows s_ind alltimes of
        Inl e \<Rightarrow> (self, Some e)
      | Inr sorted_times \<Rightarrow>
          let res = add_times_loop (keys (data self)) s_ind (data self) (data self2)
          in (self\<lparr>times := sorted_times, data := fst res\<rparr>, snd res))))))"

section \<open>Spatial interpolation: \<^verbatim>\<open>interpolate\<close>\<close>

text \<open>
  The routines that \<^verbatim>\<open>interpolate\<close> calls and the source does not define are
  parameters: \<^verbatim>\<open>scipy.interpolate.griddata\<close> (source points, source values, target
  points, method, fill value), the two transforms of the module \<^verbatim>\<open>CoordTransforms\<close>,
  and \<^verbatim>\<open>datetime.fromtimestamp\<close> composed with the formatting of its result. Each may
  raise.
\<close>

record ext =
  griddata :: "ndarray \<Rightarrow> val list \<Rightarrow> ndarray \<Rightarrow> string \<Rightarrow> val \<Rightarrow> error + val list"
  sphereical2Cartisian :: "ndarray \<Rightarrow> error + ndarray"
  cartisian2Sphereical :: "ndarray \<Rightarrow> error + ndarray"
  fromtimestamp :: "val \<Rightarrow> error + string"

text \<open>\<^verbatim>\<open>str.lower\<close> on the letters of ASCII; other characters are left as they are.\<close>

definition lower_char :: "char \<Rightarrow> char" where
  "lower_char c =
     (case map_of (zip ''ABCDEFGHIJKLMNOPQRSTUVWXYZ'' ''abcdefghijklmnopqrstuvwxyz'') c of
        Some l \<Rightarrow> l
      | None \<Rightarrow> c)"

definition lower :: "string \<Rightarrow> string" where
  "lower s = map lower_char s"

definition changecoords :: "ext \<Rightarrow> geodata \<Rightarrow> string \<Rightarrow> error + ndarray" where
  "changecoords X self newcoordname =
     (if lower (coordnames self) = ''spherical'' \<and> lower newcoordname = ''cartesian''
      then sphereical2Cartisian X (dataloc self)
      else if lower (coordnames self) = ''cartesian'' \<and> lower newcoordname = ''spherical''
      then cartisian2Sphereical X (dataloc self)
      else if lower (coordnames self) = lower newcoordname
      then Inr (dataloc self)
      else Inl (ValueError ''Wrong inputs for coordnate names was given.''))"

text \<open>The cells of \<open>xs\<close> at the true positions of a boolean list of the same length.\<close>

definition pick :: "bool list \<Rightarrow> 'a list \<Rightarrow> 'a list" where
  "pick m xs = map snd (filter fst (zip m xs))"

text \<open>Indexing with a boolean array along the first axis: the lengths must agree.\<close>

definition bool_index :: "bool list \<Rightarrow> 'a list \<Rightarrow> error + 'a list" where
  "bool_index m xs = (if length m = length xs then Inr (pick m xs) else Inl IndexError)"

text \<open>
  The branch \<^verbatim>\<open>twodinterp\<close>: an axis is kept unless it is constant over the new
  coordinates or over the current ones. \<^verbatim>\<open>new_coords\<close> has three columns by the first
  assertion of \<^verbatim>\<open>interpolate\<close>. The current coordinates must have rows and exactly three
  columns, and the new ones a first row; every other case ends in \<^verbatim>\<open>IndexError\<close>.
\<close>

definition keepaxis :: "val list list \<Rightarrow> val list list \<Rightarrow> bool list" where
  "keepaxis new_rows cur_rows =
     map (\<lambda>k. \<not> (list_all (\<lambda>r. veq (r ! k) (hd new_rows ! k)) new_rows \<or>
                 list_all (\<lambda>r. veq (r ! k) (hd cur_rows ! k)) cur_rows)) [0..<3]"

fun twod_reduce :: "ndarray \<Rightarrow> ndarray \<Rightarrow> error + ndarray \<times> ndarray" where
  "twod_reduce (A2 dt c cur_rows) (A2 dtn cn new_rows) =
     (if new_rows = [] \<or> cur_rows = [] \<or> c \<noteq> 3 then Inl IndexError
      else
        let keep = keepaxis new_rows cur_rows; n = length (filter id keep)
        in Inr (A2 dt n (map (pick keep) cur_rows), A2 dtn n (map (pick keep) new_rows)))"
| "twod_reduce _ _ = Inl IndexError"

text \<open>The argument \<^verbatim>\<open>beammask\<close>: the default \<^verbatim>\<open>True\<close>, another boolean, or a boolean array.\<close>

datatype bmask = BScalar bool | BArr "bool list"

text \<open>\<^verbatim>\<open>np.isfinite(curparam) & beammask\<close>, with numpy's broadcasting of a length-one operand.\<close>

fun mask_and :: "bool list \<Rightarrow> bmask \<Rightarrow> error + bool list" where
  "mask_and fin (BScalar b) = Inr (map (\<lambda>f. f \<and> b) fin)"
| "mask_and fin (BArr bs) =
     (if length bs = length fin then Inr (map2 (\<and>) fin bs)
      else if length bs = 1 then Inr (map (\<lambda>f. f \<and> hd bs) fin)
      else if length fin = 1 then Inr (map (\<lambda>b. hd fin \<and> b) bs)
      else Inl (ValueError ''operands could not be broadcast together''))"

text \<open>\<^verbatim>\<open>curcoords[npmask,:]\<close>: the rows of a two-axis array at the true positions.\<close>

fun select_rows :: "bool list \<Rightarrow> ndarray \<Rightarrow> error + ndarray" where
  "select_rows m (A2 dt c rows) = ebind (bool_index m rows) (\<lambda>r. Inr (A2 dt c r))"
| "select_rows m (A1 dt xs) = Inl IndexError"

fun len :: "ndarray \<Rightarrow> nat" where
  "len (A1 dt xs) = length xs"
| "len (A2 dt c rows) = length rows"

text \<open>
  The values of a field at one time step, as the full path reads them: the column of a
  two-axis field, the flattened image of a three-axis field.
\<close>

fun field_at_time :: "field \<Rightarrow> nat \<Rightarrow> error + val list" where
  "field_at_time (F2 c rows) itime =
     (if itime < c then Inr (map (\<lambda>r. r ! itime) rows) else Inl IndexError)"
| "field_at_time (F3 h w planes) itime =
     (if itime < length planes then Inr (concat (planes ! itime)) else Inl IndexError)"
| "field_at_time (F1 xs) itime = Inl (ValueError ''incorrect data matrix shape'')"

text \<open>\<^verbatim>\<open>tim[0]\<close> for the row \<^verbatim>\<open>tim\<close> of \<^verbatim>\<open>self.times\<close> that the loop is at.\<close>

fun time_start :: "ndarray \<Rightarrow> nat \<Rightarrow> error + val" where
  "time_start (A2 dt c rows) itime = (if 0 < c then Inr (rows ! itime ! 0) else Inl IndexError)"
| "time_start (A1 dt xs) itime = Inl IndexError"

text \<open>\<^verbatim>\<open>New_param[:, itime] = intparam\<close> for a one-axis \<^verbatim>\<open>intparam\<close> and a column of \<open>n\<close> cells.\<close>

definition assign_column :: "nat \<Rightarrow> val list \<Rightarrow> error + val list" where
  "assign_column n v =
     (if length v = n then Inr v
      else if length v = 1 then Inr (replicate n (hd v))
      else Inl (ValueError ''could not broadcast input array''))"

definition no_data_warning :: "string \<Rightarrow> string \<Rightarrow> string" where
  "no_data_warning iparam ts = ''No '' @ iparam @ '' data available at '' @ ts"

text \<open>
  One pass of the inner loop of the full path, for the field \<open>f\<close> named \<open>iparam\<close> at the
  time step \<open>itime\<close>: the column written to \<^verbatim>\<open>New_param\<close> and the warnings logged.
\<close>

definition interp_step ::
  "ext \<Rightarrow> ndarray \<Rightarrow> ndarray \<Rightarrow> ndarray \<Rightarrow> string \<Rightarrow> val \<Rightarrow> bmask \<Rightarrow> string \<Rightarrow> field \<Rightarrow> nat
     \<Rightarrow> error + val list \<times> string list" where
  "interp_step X tms curcoords new_coords method fill_value beammask iparam f itime =
     ebind (field_at_time f itime) (\<lambda>curparam.
     ebind (if iparam \<noteq> ''optical''
            then ebind (mask_and (map isfinite curparam) beammask) (\<lambda>dfmask.
                 ebind (bool_index dfmask curparam) (\<lambda>kept.
                 ebind (select_rows dfmask curcoords) (\<lambda>coordkeep.
                   Inr (kept, coordkeep))))
            else Inr (curparam, curcoords)) (\<lambda>kc.
     if 0 < len (snd kc)
     then ebind (griddata X (snd kc) (fst kc) new_coords method fill_value) (\<lambda>intparam.
          ebind (assign_column (len new_coords) intparam) (\<lambda>col. Inr (col, [])))
     else ebind (time_start tms itime) (\<lambda>t0.
          ebind (fromtimestamp X t0) (\<lambda>ts.
            Inr (replicate (len new_coords) NaN, [no_data_warning iparam ts])))))"

text \<open>
  The inner loop over the time steps: the warnings logged, and the columns of
  \<^verbatim>\<open>New_param\<close> or the exception that ended the loop.
\<close>

fun interp_times ::
  "ext \<Rightarrow> ndarray \<Rightarrow> ndarray \<Rightarrow> ndarray \<Rightarrow> string \<Rightarrow> val \<Rightarrow> bmask \<Rightarrow> string \<Rightarrow> field \<Rightarrow> nat list
     \<Rightarrow> string list \<times> (error + val list list)" where
  "interp_times X tms curcoords new_coords method fill_value beammask iparam f [] = ([], Inr [])"
| "interp_times X tms curcoords new_coords method fill_value beammask iparam f (itime # rest) =
     (case interp_step X tms curcoords new_coords method fill_value beammask iparam f itime of
        Inl e \<Rightarrow> ([], Inl e)
      | Inr cw \<Rightarrow>
          (case interp_times X tms curcoords new_coords method fill_value beammask iparam f rest of
             (ws, Inl e) \<Rightarrow> (snd cw @ ws, Inl e)
           | (ws, Inr cols) \<Rightarrow> (snd cw @ ws, Inr (fst cw # cols))))"

text \<open>The array of \<open>n\<close> rows whose columns are the given lists.\<close>

definition from_columns :: "nat \<Rightarrow> val list list \<Rightarrow> field" where
  "from_columns n cols = F2 (length cols) (map (\<lambda>r. map (\<lambda>c. c ! r) cols) [0..<n])"

text \<open>
  The outer loop over the fields. Each pass stores its \<^verbatim>\<open>New_param\<close> in
  \<^verbatim>\<open>self.data\<close> before the next field is read: the result is the dictionary as the loop
  leaves it, the warnings logged, and the exception if one ended the loop.
\<close>

fun interp_fields ::
  "ext \<Rightarrow> ndarray \<Rightarrow> ndarray \<Rightarrow> ndarray \<Rightarrow> string \<Rightarrow> val \<Rightarrow> bmask \<Rightarrow> string list
     \<Rightarrow> (string \<times> field) list \<Rightarrow> (string \<times> field) list \<times> string list \<times> error option" where
  "interp_fields X tms curcoords new_coords method fill_value beammask [] d = (d, [], None)"
| "interp_fields X tms curcoords new_coords method fill_value beammask (iparam # rest) d =
     (case dict_get d iparam of
        Inl e \<Rightarrow> (d, [], Some e)
      | Inr f \<Rightarrow>
          (case interp_times X tms curcoords new_coords method fill_value beammask iparam f
                  [0..<len tms] of
             (ws, Inl e) \<Rightarrow> (d, ws, Some e)
           | (ws, Inr cols) \<Rightarrow>
               (case interp_fields X tms curcoords new_coords method fill_value beammask rest
                       (dict_set d iparam (from_columns (len new_coords) cols)) of
                  (d', ws', r) \<Rightarrow> (d', ws @ ws', r))))"

text \<open>
  One pass of the loop of the single-field path. The field is indexed as
  \<^verbatim>\<open>self.data[ikey][:, itime]\<close>, which for a three-axis field is an array of two axes;
  its mask then selects single cells of \<^verbatim>\<open>curcoords\<close>, which must have the same shape.
\<close>

fun single_step ::
  "ext \<Rightarrow> ndarray \<Rightarrow> ndarray \<Rightarrow> string \<Rightarrow> val \<Rightarrow> field \<Rightarrow> nat \<Rightarrow> error + val list" where
  "single_step X curcoords new_coords method fill_value (F1 xs) itime = Inl IndexError"
| "single_step X curcoords new_coords method fill_value (F2 c rows) itime =
     (if itime < c then
        let curparam = map (\<lambda>r. r ! itime) rows;
            datakeep = map (\<lambda>v. \<not> isnan v) curparam
        in ebind (case curcoords of
                    A1 dt xs \<Rightarrow> ebind (bool_index datakeep xs) (\<lambda>r. Inr (A1 dt r))
                  | A2 dt cc crows \<Rightarrow> ebind (bool_index datakeep crows) (\<lambda>r. Inr (A2 dt cc r)))
             (\<lambda>coordkeep.
           ebind (griddata X coordkeep (pick datakeep curparam) new_coords method fill_value)
             (assign_column (len new_coords)))
      else Inl IndexError)"
| "single_step X curcoords new_coords method fill_value (F3 h w planes) itime =
     (if itime < h then
        let curparam = map (\<lambda>p. p ! itime) planes;
            datakeep = map (map (\<lambda>v. \<not> isnan v)) curparam
        in (case curcoords of
              A1 dt xs \<Rightarrow> Inl IndexError
            | A2 dt cc crows \<Rightarrow>
                if length crows = length planes \<and> cc = w
                then ebind (griddata X (A1 dt (concat (map2 pick datakeep crows)))
                              (concat (map2 pick datakeep curparam)) new_coords method fill_value)
                       (assign_column (len new_coords))
                else Inl IndexError)
      else Inl IndexError)"

fun single_times ::
  "ext \<Rightarrow> ndarray \<Rightarrow> ndarray \<Rightarrow> string \<Rightarrow> val \<Rightarrow> field \<Rightarrow> nat list \<Rightarrow> error + val list list" where
  "single_times X curcoords new_coords method fill_value f [] = Inr []"
| "single_times X curcoords new_coords method fill_value f (itime # rest) =
     (case single_step X curcoords new_coords method fill_value f itime of
        Inl e \<Rightarrow> Inl e
      | Inr col \<Rightarrow>
          (case single_times X curcoords new_coords method fill_value f rest of
             Inl e \<Rightarrow> Inl e
           | Inr cols \<Rightarrow> Inr (col # cols)))"

text \<open>
  \<^verbatim>\<open>interpolate\<close>: the dataset as the call leaves it, the warnings logged, and the
  exception raised or the value returned (\<open>None\<close> on the full path, the new array on the
  single-field path).
\<close>

definition interpolate ::
  "ext \<Rightarrow> geodata \<Rightarrow> ndarray \<Rightarrow> string \<Rightarrow> string \<Rightarrow> val \<Rightarrow> bool \<Rightarrow> string option \<Rightarrow> bmask
     \<Rightarrow> geodata \<times> string list \<times> (error + field option)" where
  "interpolate X self new_coords newcoordname method fill_value twodinterp ikey beammask =
     (if \<not> (length (shape new_coords) = 2 \<and> shape new_coords ! 1 = 3)
      then (self, [], Inl (AssertionError ''''))
      else if method \<notin> set [''linear'', ''nearest'', ''cubic'']
      then (self, [], Inl (AssertionError ''method needs to be linear, nearest, cubic''))
      else
        case ebind (changecoords X self newcoordname) (\<lambda>curcoords.
               if twodinterp then twod_reduce curcoords new_coords
               else Inr (curcoords, new_coords)) of
          Inl e \<Rightarrow> (self, [], Inl e)
        | Inr cn \<Rightarrow>
            if (case ikey of None \<Rightarrow> True | Some k \<Rightarrow> k \<notin> set (keys (data self)))
            then
              (case interp_fields X (times self) (fst cn) (snd cn) method fill_value beammask
                      (keys (data self)) (data self) of
                 (d, ws, Some e) \<Rightarrow> (self\<lparr>data := d\<rparr>, ws, Inl e)
               | (d, ws, None) \<Rightarrow>
                   (self\<lparr>data := d, dataloc := new_coords, coordnames := newcoordname\<rparr>,
                    ws, Inr None))
            else
              (case ebind (dict_get (data self) (the ikey)) (\<lambda>f.
                      single_times X (fst cn) (snd cn) method fill_value f [0..<len (times self)]) of
                 Inl e \<Rightarrow> (self, [], Inl e)
               | Inr cols \<Rightarrow> (self, [], Inr (Some (from_columns (len new_coords) cols)))))"

section \<open>The full path, step by step\<close>

text \<open>
  What the full path of \<^verbatim>\<open>interpolate\<close> is expected to leave, written from the passes
  of the inner loop: whether the pass for a field and a time step raises, the column it
  writes and the warnings it logs when it does not, the new array of a field (one row
  per new location, one column per time step, the cell at row \<open>r\<close> and column \<open>t\<close> being
  the cell \<open>r\<close> of the column of the time step \<open>t\<close>), and the warnings of the first \<open>n\<close>
  time steps of a field.
\<close>

definition step_raises ::
  "ext \<Rightarrow> ndarray \<Rightarrow> ndarray \<Rightarrow> ndarray \<Rightarrow> string \<Rightarrow> val \<Rightarrow> bmask \<Rightarrow> string \<times> field \<Rightarrow> nat
     \<Rightarrow> bool" where
  "step_raises X tms cur new method fill_value beammask kf t \<longleftrightarrow>
     isl (interp_step X tms cur new method fill_value beammask (fst kf) (snd kf) t)"

definition step_column ::
  "ext \<Rightarrow> ndarray \<Rightarrow> ndarray \<Rightarrow> ndarray \<Rightarrow> string \<Rightarrow> val \<Rightarrow> bmask \<Rightarrow> string \<times> field \<Rightarrow> nat
     \<Rightarrow> val list" where
  "step_column X tms cur new method fill_value beammask kf t =
     fst (projr (interp_step X tms cur new method fill_value beammask (fst kf) (snd kf) t))"

definition step_warnings ::
  "ext \<Rightarrow> ndarray \<Rightarrow> ndarray \<Rightarrow> ndarray \<Rightarrow> string \<Rightarrow> val \<Rightarrow> bmask \<Rightarrow> string \<times> field \<Rightarrow> nat
     \<Rightarrow> string list" where
  "step_warnings X tms cur new method fill_value beammask kf t =
     snd (projr (interp_step X tms cur new method fill_value beammask (fst kf) (snd kf) t))"

definition interpolated ::
  "ext \<Rightarrow> ndarray \<Rightarrow> ndarray \<Rightarrow> ndarray \<Rightarrow> string \<Rightarrow> val \<Rightarrow> bmask \<Rightarrow> string \<times> field
     \<Rightarrow> string \<times> field" where
  "interpolated X tms cur new method fill_value beammask kf =
     (fst kf,
      F2 (len tms)
        (map (\<lambda>r. map (\<lambda>t. step_column X tms cur new method fill_value beammask kf t ! r)
                    [0..<len tms])
           [0..<len new]))"

definition field_warnings ::
  "ext \<Rightarrow> ndarray \<Rightarrow> ndarray \<Rightarrow> ndarray \<Rightarrow> string \<Rightarrow> val \<Rightarrow> bmask \<Rightarrow> string \<times> field \<Rightarrow> nat
     \<Rightarrow> string list" where
  "field_warnings X tms cur new method fill_value beammask kf n =
     concat (map (\<lambda>t. step_warnings X tms cur new method fill_value beammask kf t) [0..<n])"

section \<open>Examples\<close>

text \<open>
  Stand-ins for the external routines, for concrete evaluations only. The interpolation
  raises when it is given a number of values other than the number of points, as scipy
  does; otherwise it answers, at each target, the number of values it was given plus the
  sum of those that are finite plus the first coordinate of the target, except that a
  method other than nearest answers the fill value at a target whose first coordinate is
  above 1. Its result so shows which samples, targets, method and fill value it
  received. The transforms are the identity, and the timestamp 0 is rendered as Python
  renders it, while not-a-number and the infinities raise as in Python.
\<close>

definition example_ext :: ext where
  "example_ext =
     \<lparr>griddata = (\<lambda>coordkeep curparam new_coords method fill_value.
          if len coordkeep \<noteq> length curparam
          then Inl (ValueError ''different number of values and points'')
          else Inr (map (\<lambda>r. if method \<noteq> ''nearest'' \<and> vlt (Fin 1) (hd r) then fill_value
                             else vadd (Fin (of_nat (length curparam)))
                                    (vadd (vsum (filter isfinite curparam)) (hd r)))
                      (snd (as2d new_coords)))),
      sphereical2Cartisian = Inr,
      cartisian2Sphereical = Inr,
      fromtimestamp = (\<lambda>t. case t of
          NaN \<Rightarrow> Inl (ValueError ''cannot convert float NaN to integer'')
        | Fin r \<Rightarrow> if r = 0 then Inr ''1970-01-01 00:00:00+00:00'' else Inr ''(a timestamp)''
        | _ \<Rightarrow> Inl (OverflowError ''cannot convert float infinity to integer''))\<rparr>"

text \<open>The four conditions that \<^verbatim>\<open>add_times\<close> asserts before it merges.\<close>

definition mergeable :: "geodata \<Rightarrow> geodata \<Rightarrow> bool" where
  "mergeable A B \<longleftrightarrow>
     set (keys (data A)) = set (keys (data B)) \<and> coordnames A = coordnames B \<and>
     nd_allequal (dataloc A) (dataloc B) = Inr True \<and>
     nd_allequal (sensorloc A) (sensorloc B) = Inr True"

text \<open>
  A dataset of four locations with one field of one time step, for concrete evaluations:
  the name of the field, its value at the last location and the time array are given.
\<close>

definition example_dataset :: "string \<Rightarrow> val \<Rightarrow> ndarray \<Rightarrow> geodata" where
  "example_dataset k v t =
     \<lparr>data = [(k, F2 1 [[Fin 1], [Fin 2], [Fin 3], [v]])], coordnames = ''Spherical'',
      dataloc = A2 Float64 3 [[Fin 1, Fin 0, Fin 0], [Fin 2, Fin 0, Fin 0],
                              [Fin 3, Fin 0, NaN], [Fin 4, Fin 0, Fin 0]],
      sensorloc = A1 Float64 [NaN, NaN, NaN], times = t, expdesc = ''''\<rparr>"

text \<open>
  For concrete evaluations: a dataset of two locations and two time steps with the given
  fields, and three target locations.
\<close>

definition two_step_dataset :: "(string \<times> field) list \<Rightarrow> geodata" where
  "two_step_dataset d =
     \<lparr>data = d, coordnames = ''Cartesian'',
      dataloc = A2 Float64 3 [[Fin 0, Fin 0, Fin 0], [Fin 1, Fin 1, Fin 1]],
      sensorloc = A1 Float64 [NaN, NaN, NaN],
      times = A2 Float64 2 [[Fin 0, Fin 60], [Fin 60, Fin 120]], expdesc = ''''\<rparr>"

definition three_targets :: ndarray where
  "three_targets =
     A2 Float64 3 [[Fin 0, Fin 0, Fin 0], [Fin 1, Fin 0, Fin 0], [Fin 2, Fin 0, Fin 0]]"

section \<open>Properties of \<^verbatim>\<open>timerepair\<close>\<close>



lemma timerepair_flat_shape: "timerepair_flat dt xs = Inr b \<Longrightarrow> \<exists>rows. b = A2 dt 2 rows"
  by (auto simp: timerepair_flat_def Let_def column_stack_def ebind_def
      split: if_splits sum.splits)

lemma timerepair_shape: "timerepair t = Inr b \<Longrightarrow> \<exists>rows. b = A2 (dtype_of t) 2 rows"
  by (cases t) (auto dest: timerepair_flat_shape split: if_splits)

text \<open>
  C9. An array that already has shape \<open>(N, 2)\<close> is returned by \<^verbatim>\<open>timerepair\<close> as it is,
  with the same values and the same element type, and no warning is logged.
\<close>

theorem timerepair_canonical_unchanged:
  "timerepair (A2 dt 2 rows) = Inr (A2 dt 2 rows) \<and> \<not> timerepair_warns (A2 dt 2 rows)"
  by simp

subsection \<open>Finite instants\<close>











subsection \<open>Start and end of the rows\<close>























section \<open>Properties of \<^verbatim>\<open>timeregister\<close>\<close>

lemma set_argwhere: "set (argwhere bs) = {i. i < length bs \<and> bs ! i}"
  by (auto simp: argwhere_def)

lemma sorted_argwhere: "sorted (argwhere bs)"
  by (simp add: argwhere_def sorted_wrt_filter)

lemma le_last_sorted:
  fixes xs :: "nat list"
  shows "sorted xs \<Longrightarrow> y \<in> set xs \<Longrightarrow> y \<le> last xs"
  by (induction xs) auto

lemma last_sorted_Max:
  fixes xs :: "nat list"
  assumes "sorted xs" "xs \<noteq> []"
  shows "last xs = Max (set xs)"
proof -
  have "Max (set xs) = last xs"
    using assms by (intro Max_eqI) (auto simp: le_last_sorted)
  then show ?thesis by simp
qed

lemma hd_sorted_Min:
  fixes xs :: "nat list"
  assumes "sorted xs" "xs \<noteq> []"
  shows "hd xs = Min (set xs)"
proof -
  have "Min (set xs) = hd xs"
    using assms by (intro Min_eqI) (cases xs; auto)+
  then show ?thesis by simp
qed

lemma overlap_row_sets:
  "overlap_row rows2 l =
     (let A = {i. i < length rows2 \<and> vlt (rows2 ! i ! 0) (l ! 0)};
          B = {i. i < length rows2 \<and> vlt (l ! 1) (rows2 ! i ! 1)}
      in if A = {} \<or> B = {} then [] else [Max A ..< Suc (Min B)])"
proof -
  let ?l1 = "argwhere (map (\<lambda>r. vlt (r ! 0) (l ! 0)) rows2)"
  let ?l2 = "argwhere (map (\<lambda>r. vlt (l ! 1) (r ! 1)) rows2)"
  let ?A = "{i. i < length rows2 \<and> vlt (rows2 ! i ! 0) (l ! 0)}"
  let ?B = "{i. i < length rows2 \<and> vlt (l ! 1) (rows2 ! i ! 1)}"
  have A: "set ?l1 = ?A" by (auto simp: set_argwhere)
  have B: "set ?l2 = ?B" by (auto simp: set_argwhere)
  have eA: "?l1 = [] \<longleftrightarrow> ?A = {}" using A by (metis set_empty)
  have eB: "?l2 = [] \<longleftrightarrow> ?B = {}" using B by (metis set_empty)
  have mA: "?l1 \<noteq> [] \<Longrightarrow> last ?l1 = Max ?A"
    using last_sorted_Max[OF sorted_argwhere, of "map (\<lambda>r. vlt (r ! 0) (l ! 0)) rows2"] A
    by simp
  have mB: "?l2 \<noteq> [] \<Longrightarrow> hd ?l2 = Min ?B"
    using hd_sorted_Min[OF sorted_argwhere, of "map (\<lambda>r. vlt (l ! 1) (r ! 1)) rows2"] B
    by simp
  show ?thesis
    unfolding overlap_row_def Let_def arange_def
    using eA eB mA mB by (simp only: Suc_eq_plus1 split: if_splits) auto
qed

lemma overlap_row_bound:
  assumes "r = overlap_row rows2 l"
  shows "r = [] \<or> (\<exists>a b. a \<le> b \<and> b < length rows2 \<and> r = [a..<Suc b])"
proof (cases "r = []")
  case True then show ?thesis by simp
next
  case False
  let ?l1 = "argwhere (map (\<lambda>r. vlt (r ! 0) (l ! 0)) rows2)"
  let ?l2 = "argwhere (map (\<lambda>r. vlt (l ! 1) (r ! 1)) rows2)"
  from False assms have ne: "?l1 \<noteq> []" "?l2 \<noteq> []" and r: "r = [last ?l1 ..< Suc (hd ?l2)]"
    by (auto simp: overlap_row_def Let_def arange_def split: if_splits)
  from False r have le: "last ?l1 \<le> hd ?l2" by (simp del: upt_Suc)
  have "hd ?l2 \<in> set ?l2" using ne by simp
  then have "hd ?l2 < length rows2" by (simp add: set_argwhere)
  with le r show ?thesis by blast
qed

text \<open>
  C1, as the claim states it, fails: the code compares the other way round. For the row
  [5, 6] of the first table and the one row [0, 10] of the second, the code returns the
  index 0 (the row starts before 5 and ends after 6), while the rule of the claim (start
  greater than 5, end less than 6) gives the empty sequence.
\<close>

theorem timeregister_spec_counterexample:
  "timeregister (dataset_of_times (A2 Float64 2 [[Fin 5, Fin 6]])) (dataset_of_times (A2 Float64 2 [[Fin 0, Fin 10]]))
     = Inr [[0]] \<and>
   map (overlap_row_spec [[Fin 0, Fin 10]]) [[Fin 5, Fin 6]] = [[]]"
  by (simp add: timeregister_def dataset_of_times_def ebind_def overlap_row_def
      overlap_row_spec_def argwhere_def arange_def)

text \<open>
  C1, amended. For two datasets with interval tables of shape \<open>(n1, 2)\<close> and \<open>(n2, 2)\<close>,
  \<^verbatim>\<open>timeregister\<close> returns one sequence per row [s1, e1] of the first table: with
  \<open>A\<close> the indices of the rows of the second table whose start is less than s1 and
  \<open>B\<close> the indices of those whose end is greater than e1, the sequence is empty when
  \<open>A\<close> or \<open>B\<close> is empty, and otherwise the range from the greatest index of \<open>A\<close> to the
  least index of \<open>B\<close>, both included (empty when the first is greater than the second).
\<close>

theorem timeregister_rows:
  assumes "times self = A2 dt1 2 rows1" and "times self2 = A2 dt2 2 rows2"
  shows "timeregister self self2 =
         Inr (map (\<lambda>l. let A = {i. i < length rows2 \<and> vlt (rows2 ! i ! 0) (l ! 0)};
                           B = {i. i < length rows2 \<and> vlt (l ! 1) (rows2 ! i ! 1)}
                       in if A = {} \<or> B = {} then [] else [Max A ..< Suc (Min B)]) rows1)"
  using assms by (simp add: timeregister_def ebind_def overlap_row_sets)

theorem timeregister_rows_witness:
  "times (dataset_of_times (A2 Float64 2 [[Fin 5, Fin 6]])) = A2 Float64 2 [[Fin 5, Fin 6]] \<and>
   times (dataset_of_times (A2 Float64 2 [[Fin 0, Fin 10]])) = A2 Float64 2 [[Fin 0, Fin 10]] \<and>
   timeregister (dataset_of_times (A2 Float64 2 [[Fin 5, Fin 6]]))
     (dataset_of_times (A2 Float64 2 [[Fin 0, Fin 10]])) = Inr [[0]]"
proof -
  have t1: "times (dataset_of_times (A2 Float64 2 [[Fin 5, Fin 6]])) = A2 Float64 2 [[Fin 5, Fin 6]]"
    and t2: "times (dataset_of_times (A2 Float64 2 [[Fin 0, Fin 10]])) = A2 Float64 2 [[Fin 0, Fin 10]]"
    by (simp_all add: dataset_of_times_def)
  have A: "{i. i < length [[Fin 0, Fin 10]] \<and>
               vlt ([[Fin 0, Fin 10]] ! i ! 0) ([Fin 5, Fin 6] ! 0)} = {0}"
    by auto
  have B: "{i. i < length [[Fin 0, Fin 10]] \<and>
               vlt ([Fin 5, Fin 6] ! 1) ([[Fin 0, Fin 10]] ! i ! 1)} = {0}"
    by auto
  have "timeregister (dataset_of_times (A2 Float64 2 [[Fin 5, Fin 6]]))
     (dataset_of_times (A2 Float64 2 [[Fin 0, Fin 10]])) =
     Inr (map (\<lambda>l. let A = {i. i < length [[Fin 0, Fin 10]] \<and>
                                vlt ([[Fin 0, Fin 10]] ! i ! 0) (l ! 0)};
                       B = {i. i < length [[Fin 0, Fin 10]] \<and>
                                vlt (l ! 1) ([[Fin 0, Fin 10]] ! i ! 1)}
                   in if A = {} \<or> B = {} then [] else [Max A ..< Suc (Min B)])
            [[Fin 5, Fin 6]])"
    by (rule timeregister_rows[OF t1 t2])
  also have "\<dots> = Inr [[0]]"
    unfolding list.map Let_def A B by simp
  finally show ?thesis using t1 t2 by simp
qed

text \<open>
  C8. Every sequence that \<^verbatim>\<open>timeregister\<close> returns is empty or a range \<open>a, a+1, ..., b\<close>
  with \<open>a \<le> b\<close> and \<open>b\<close> below the number of rows of the second interval table: ascending,
  without gaps, and made of valid indices of that table only.
\<close>

theorem timeregister_indices_valid:
  assumes "timeregister self self2 = Inr out"
    and "timerepair (times self2) = Inr (A2 dt c rows2)"
    and "r \<in> set out"
  shows "r = [] \<or> (\<exists>a b. a \<le> b \<and> b < length rows2 \<and> r = [a..<Suc b])"
proof -
  from assms(1,2) obtain rows1 where "out = map (overlap_row rows2) rows1"
    by (auto simp: timeregister_def ebind_def split: sum.splits if_splits
        elim!: overlap.elims)
  with assms(3) obtain l where "r = overlap_row rows2 l" by auto
  then show ?thesis by (rule overlap_row_bound)
qed

theorem timeregister_indices_valid_witness:
  "timeregister (dataset_of_times (A2 Float64 2 [[Fin 5, Fin 12]]))
     (dataset_of_times (A2 Float64 2 [[Fin 0, Fin 10], [Fin 10, Fin 20]])) = Inr [[0, 1]] \<and>
   timerepair (times (dataset_of_times (A2 Float64 2 [[Fin 0, Fin 10], [Fin 10, Fin 20]])))
     = Inr (A2 Float64 2 [[Fin 0, Fin 10], [Fin 10, Fin 20]]) \<and>
   [0, 1] \<in> set [[0, 1 :: nat]] \<and>
   ([0, 1 :: nat] = [] \<or>
    (\<exists>a b. a \<le> b \<and> b < length [[Fin 0, Fin 10], [Fin 10, Fin 20]] \<and> [0, 1] = [a..<Suc b]))"
proof -
  have a: "timeregister (dataset_of_times (A2 Float64 2 [[Fin 5, Fin 12]]))
     (dataset_of_times (A2 Float64 2 [[Fin 0, Fin 10], [Fin 10, Fin 20]])) = Inr [[0, 1]]"
    by (simp add: timeregister_def dataset_of_times_def ebind_def overlap_row_def
        argwhere_def arange_def)
  have b: "timerepair (times (dataset_of_times (A2 Float64 2 [[Fin 0, Fin 10], [Fin 10, Fin 20]])))
     = Inr (A2 Float64 2 [[Fin 0, Fin 10], [Fin 10, Fin 20]])"
    by (simp add: dataset_of_times_def)
  have c: "[0, 1] \<in> set [[0, 1 :: nat]]" by simp
  have d: "[0, 1 :: nat] = [] \<or>
    (\<exists>a b. a \<le> b \<and> b < length [[Fin 0, Fin 10], [Fin 10, Fin 20]] \<and> [0, 1] = [a..<Suc b])"
    by (rule timeregister_indices_valid[OF a b c])
  from a b c d show ?thesis by (intro conjI)
qed

section \<open>Properties of the masked comparison and of \<^verbatim>\<open>__eq__\<close>\<close>

lemma masked_equal_refl: "masked_equal x x"
  by (simp add: masked_equal_def)

lemma masked_equal_sym: "masked_equal x y = masked_equal y x"
  by (auto simp: masked_equal_def)

lemma list_all2_masked_sym: "list_all2 masked_equal xs ys = list_all2 masked_equal ys xs"
proof -
  have "masked_equal\<inverse>\<inverse> = masked_equal"
    by (intro ext) (simp add: masked_equal_sym)
  then show ?thesis by (metis list.rel_flip)
qed

lemma broadcast_dim_sym: "broadcast_dim a b = broadcast_dim b a"
  by (auto simp: broadcast_dim_def)

lemma map2_broadcast_dim_sym: "map2 broadcast_dim p q = map2 broadcast_dim q p"
proof (induction p arbitrary: q)
  case Nil then show ?case by simp
next
  case (Cons a p) then show ?case by (cases q) (auto simp: broadcast_dim_sym)
qed

lemma broadcast_shapes_sym: "broadcast_shapes s1 s2 = broadcast_shapes s2 s1"
proof -
  have m: "max (length s1) (length s2) = max (length s2) (length s1)" by simp
  show ?thesis
    unfolding broadcast_shapes_def Let_def m
    by (simp only: map2_broadcast_dim_sym[of "pad_shape (max (length s2) (length s1)) s1"])
qed

lemma ma_allequal_sym: "ma_allequal s1 xs s2 ys = ma_allequal s2 ys s1 xs"
proof (cases "s1 = s2")
  case True
  then show ?thesis by (simp add: ma_allequal_def list_all2_masked_sym[of xs ys])
next
  case False
  then have ne: "s2 \<noteq> s1" by auto
  show ?thesis
  proof (cases "broadcast_shapes s1 s2")
    case None
    then show ?thesis using False ne broadcast_shapes_sym[of s1 s2]
      by (simp add: ma_allequal_def)
  next
    case (Some t)
    then show ?thesis using False ne broadcast_shapes_sym[of s1 s2]
      by (simp add: ma_allequal_def
          list_all2_masked_sym[of "broadcast_to t (pad_shape (length t) s1) xs"])
  qed
qed

lemma nd_allequal_sym: "nd_allequal a b = nd_allequal b a"
  by (simp add: nd_allequal_def ma_allequal_sym[of "shape a"])

lemma ma_allequal_refl: "ma_allequal s xs s xs = Inr True"
  by (simp add: ma_allequal_def list_all2_same masked_equal_refl)

lemma nd_allequal_refl: "nd_allequal a a = Inr True"
  by (simp add: nd_allequal_def ma_allequal_refl)

text \<open>
  On operands of one shape the broadcast is the identity, so the two branches of
  \<open>ma_allequal\<close> describe one comparison.
\<close>

lemma concat_chunks: "length xs = k * m \<Longrightarrow> concat (chunks k m xs) = xs"
proof (induction k arbitrary: xs)
  case 0 then show ?case by simp
next
  case (Suc k)
  then have "length (drop m xs) = k * m" by simp
  with Suc.IH have "concat (chunks k m (drop m xs)) = drop m xs" by blast
  then show ?case by simp
qed

lemma chunks_length: "length xs = k * m \<Longrightarrow> ys \<in> set (chunks k m xs) \<Longrightarrow> length ys = m"
proof (induction k arbitrary: xs)
  case 0 then show ?case by simp
next
  case (Suc k)
  then have l: "length (drop m xs) = k * m" by simp
  from Suc.prems have "ys = take m xs \<or> ys \<in> set (chunks k m (drop m xs))" by simp
  then show ?case
  proof
    assume "ys = take m xs" with Suc.prems(1) show ?thesis by simp
  next
    assume "ys \<in> set (chunks k m (drop m xs))"
    with Suc.IH[OF l] show ?thesis by blast
  qed
qed

lemma broadcast_to_same: "length xs = prod_list s \<Longrightarrow> broadcast_to s s xs = xs"
proof (induction s arbitrary: xs)
  case Nil then show ?case by simp
next
  case (Cons a s)
  have "map (broadcast_to s s) (chunks a (prod_list s) xs) = chunks a (prod_list s) xs"
  proof (rule map_idI)
    fix ys assume "ys \<in> set (chunks a (prod_list s) xs)"
    then have "length ys = prod_list s" using chunks_length Cons.prems by auto
    then show "broadcast_to s s ys = ys" by (rule Cons.IH)
  qed
  then show ?case using concat_chunks[of xs a "prod_list s"] Cons.prems by simp
qed

lemma broadcast_shapes_same: "broadcast_shapes s s = Some s"
proof -
  have "map2 broadcast_dim s s = map Some s"
    by (induction s) (auto simp: broadcast_dim_def)
  then show ?thesis
    by (simp add: broadcast_shapes_def pad_shape_def list_all_iff comp_def)
qed

subsection \<open>What \<^verbatim>\<open>__eq__\<close> compares\<close>

lemma isnan_iff: "isnan x \<longleftrightarrow> x = NaN"
  by (cases x) simp_all

lemma ma_allequal_same_shape:
  "ma_allequal s xs s ys = Inr (list_all2 (\<lambda>x y. x = NaN \<or> y = NaN \<or> x = y) xs ys)"
proof -
  have "masked_equal = (\<lambda>x y. x = NaN \<or> y = NaN \<or> x = y)"
    by (intro ext) (simp add: masked_equal_def isnan_iff)
  then show ?thesis by (simp add: ma_allequal_def)
qed

lemma nd_allequal_same_shape:
  "shape a = shape b \<Longrightarrow>
   nd_allequal a b = Inr (list_all2 (\<lambda>x y. x = NaN \<or> y = NaN \<or> x = y) (ravel a) (ravel b))"
  by (simp add: nd_allequal_def ma_allequal_same_shape)

lemma dict_get_key: "k \<in> set (keys d) \<Longrightarrow> \<exists>a. dict_get d k = Inr a"
  by (cases "map_of d k") (auto simp: dict_get_def keys_def map_of_eq_None_iff)

lemma dict_get_is_key: "dict_get d k = Inr a \<Longrightarrow> k \<in> set (keys d)"
  by (cases "map_of d k") (auto simp: dict_get_def keys_def dest: map_of_SomeD intro: rev_image_eqI)

lemma eq_fields_same_shape:
  assumes "set ks \<subseteq> set (keys d1)" and "set ks \<subseteq> set (keys d2)"
    and "\<And>k a b. dict_get d1 k = Inr a \<Longrightarrow> dict_get d2 k = Inr b \<Longrightarrow> fshape a = fshape b"
  shows "eq_fields ks d1 d2 =
         Inr (\<forall>k\<in>set ks. \<forall>a b. dict_get d1 k = Inr a \<and> dict_get d2 k = Inr b \<longrightarrow>
                list_all2 (\<lambda>x y. x = NaN \<or> y = NaN \<or> x = y) (fravel a) (fravel b))"
  using assms(1,2)
proof (induction ks)
  case Nil then show ?case by simp
next
  case (Cons k ks)
  from Cons.prems obtain a b where a: "dict_get d1 k = Inr a" and b: "dict_get d2 k = Inr b"
    using dict_get_key[of k d1] dict_get_key[of k d2] by auto
  have s: "fshape a = fshape b" using assms(3)[OF a b] .
  have f: "field_allequal a b
           = Inr (list_all2 (\<lambda>x y. x = NaN \<or> y = NaN \<or> x = y) (fravel a) (fravel b))"
    by (simp add: field_allequal_def s ma_allequal_same_shape)
  from Cons have IH: "eq_fields ks d1 d2 =
         Inr (\<forall>k\<in>set ks. \<forall>a b. dict_get d1 k = Inr a \<and> dict_get d2 k = Inr b \<longrightarrow>
                list_all2 (\<lambda>x y. x = NaN \<or> y = NaN \<or> x = y) (fravel a) (fravel b))"
    by simp
  show ?case by (simp add: a b f IH)
qed

text \<open>
  C2, as the claim states it, fails: the mask of \<^verbatim>\<open>np.ma.allequal\<close> is the union of the
  masks of its operands. Two datasets that differ only at the last location, where one
  holds 4 and the other not-a-number, compare equal, in either order.
\<close>

theorem GeoData_eq_nan_counterexample:
  "GeoData_eq (example_dataset ''ne'' (Fin 4) (A2 Float64 2 [[Fin 0, Fin 5]]))
              (example_dataset ''ne'' NaN (A2 Float64 2 [[Fin 0, Fin 5]])) = Inr True \<and>
   GeoData_eq (example_dataset ''ne'' NaN (A2 Float64 2 [[Fin 0, Fin 5]]))
              (example_dataset ''ne'' (Fin 4) (A2 Float64 2 [[Fin 0, Fin 5]])) = Inr True"
  by (simp add: GeoData_eq_def example_dataset_def keys_def dict_get_def ebind_def
      field_allequal_def nd_allequal_def ma_allequal_def masked_equal_def)

text \<open>
  C2, amended. For two datasets whose fields of the same name have the same shape, and
  whose locations, sensor locations and times have the same shapes, \<^verbatim>\<open>__eq__\<close> raises
  nothing and returns true exactly when the sets of field names are equal, the
  coordinate names are equal, and at every index of every field, of the locations, of
  the sensor locations and of the times, one of the two values is not-a-number or the two
  values are equal. A position is ignored as soon as either operand is not-a-number
  there; every other position is compared exactly.
\<close>

theorem GeoData_eq_masked:
  assumes "\<forall>k a b. dict_get (data A) k = Inr a \<and> dict_get (data B) k = Inr b
             \<longrightarrow> fshape a = fshape b"
    and "shape (dataloc A) = shape (dataloc B)"
    and "shape (sensorloc A) = shape (sensorloc B)"
    and "shape (times A) = shape (times B)"
  shows "GeoData_eq A B =
         Inr (set (keys (data A)) = set (keys (data B)) \<and>
              (\<forall>k a b. dict_get (data A) k = Inr a \<and> dict_get (data B) k = Inr b \<longrightarrow>
                 list_all2 (\<lambda>x y. x = NaN \<or> y = NaN \<or> x = y) (fravel a) (fravel b)) \<and>
              coordnames A = coordnames B \<and>
              list_all2 (\<lambda>x y. x = NaN \<or> y = NaN \<or> x = y)
                (ravel (dataloc A)) (ravel (dataloc B)) \<and>
              list_all2 (\<lambda>x y. x = NaN \<or> y = NaN \<or> x = y)
                (ravel (sensorloc A)) (ravel (sensorloc B)) \<and>
              list_all2 (\<lambda>x y. x = NaN \<or> y = NaN \<or> x = y)
                (ravel (times A)) (ravel (times B)))"
proof (cases "set (keys (data A)) = set (keys (data B))")
  case False
  then show ?thesis by (simp add: GeoData_eq_def)
next
  case True
  let ?R = "\<lambda>x y. x = NaN \<or> y = NaN \<or> x = y"
  have e: "eq_fields (keys (data A)) (data A) (data B) =
         Inr (\<forall>k\<in>set (keys (data A)). \<forall>a b.
                dict_get (data A) k = Inr a \<and> dict_get (data B) k = Inr b \<longrightarrow>
                list_all2 ?R (fravel a) (fravel b))"
    using True assms(1) by (intro eq_fields_same_shape) auto
  have q: "(\<forall>k\<in>set (keys (data A)). \<forall>a b.
                dict_get (data A) k = Inr a \<and> dict_get (data B) k = Inr b \<longrightarrow>
                list_all2 ?R (fravel a) (fravel b))
           \<longleftrightarrow> (\<forall>k a b. dict_get (data A) k = Inr a \<and> dict_get (data B) k = Inr b \<longrightarrow>
                list_all2 ?R (fravel a) (fravel b))"
    using dict_get_is_key by blast
  show ?thesis
    unfolding GeoData_eq_def e q
    by (auto simp: True ebind_def nd_allequal_same_shape[OF assms(2)]
        nd_allequal_same_shape[OF assms(3)] nd_allequal_same_shape[OF assms(4)])
qed

text \<open>
  The datasets of the claim, which differ at one index where one holds 4 and the other
  not-a-number, compare equal; with 5 in place of not-a-number they do not.
\<close>

theorem GeoData_eq_masked_witness:
  "GeoData_eq (example_dataset ''ne'' (Fin 4) (A2 Float64 2 [[Fin 0, Fin 5]]))
              (example_dataset ''ne'' NaN (A2 Float64 2 [[Fin 0, Fin 5]])) = Inr True \<and>
   GeoData_eq (example_dataset ''ne'' (Fin 4) (A2 Float64 2 [[Fin 0, Fin 5]]))
              (example_dataset ''ne'' (Fin 5) (A2 Float64 2 [[Fin 0, Fin 5]])) = Inr False \<and>
   GeoData_eq (example_dataset ''ne'' (Fin 4) (A2 Float64 2 [[Fin 0, Fin 5]]))
              (example_dataset ''ne'' (Fin 4) (A2 Float64 2 [[Fin 0, Fin 6]])) = Inr False"
proof -
  let ?t = "A2 Float64 2 [[Fin 0, Fin 5]]"
  let ?A = "example_dataset ''ne'' (Fin 4) ?t"
  have h: "\<forall>k a b. dict_get (data ?A) k = Inr a \<and>
             dict_get (data (example_dataset ''ne'' v t)) k = Inr b \<longrightarrow> fshape a = fshape b"
    for v t
    by (auto simp: example_dataset_def dict_get_def split: if_splits)
  have s: "shape (dataloc ?A) = shape (dataloc (example_dataset ''ne'' v t))"
    "shape (sensorloc ?A) = shape (sensorloc (example_dataset ''ne'' v t))" for v t
    by (simp_all add: example_dataset_def)
  have t: "shape (times ?A) = shape (times (example_dataset ''ne'' v (A2 Float64 2 [[a, b]])))"
    for v a b
    by (simp add: example_dataset_def)
  have c: "(\<forall>k a b. dict_get (data ?A) k = Inr a \<and>
             dict_get (data (example_dataset ''ne'' v t)) k = Inr b \<longrightarrow>
             list_all2 (\<lambda>x y. x = NaN \<or> y = NaN \<or> x = y) (fravel a) (fravel b))
           \<longleftrightarrow> (v = NaN \<or> Fin 4 = v)" for v t
    by (auto simp: example_dataset_def dict_get_def split: if_splits)
  have r: "GeoData_eq ?A (example_dataset ''ne'' v (A2 Float64 2 [[a, b]]))
           = Inr ((v = NaN \<or> Fin 4 = v) \<and> (b = NaN \<or> Fin 5 = b) \<and> (a = NaN \<or> Fin 0 = a))"
    for v a b
    using GeoData_eq_masked[of ?A "example_dataset ''ne'' v (A2 Float64 2 [[a, b]])"]
      h[of v "A2 Float64 2 [[a, b]]"] s[of v "A2 Float64 2 [[a, b]]"] t[of v a b]
      c[of v "A2 Float64 2 [[a, b]]"]
    by (simp add: example_dataset_def keys_def) blast
  show ?thesis
    using r[of NaN "Fin 0" "Fin 5"] r[of "Fin 5" "Fin 0" "Fin 5"] r[of "Fin 4" "Fin 0" "Fin 6"]
    by simp
qed

section \<open>Properties of \<^verbatim>\<open>add_times\<close>\<close>

lemma insort_key_map:
  "map h (insort_key (\<lambda>z. k (h z)) z zs) = insort_key k (h z) (map h zs)"
  by (induction zs) auto

lemma sort_key_map: "map h (sort_key (\<lambda>z. k (h z)) zs) = sort_key k (map h zs)"
  by (induction zs) (auto simp: insort_key_map)

lemma insort_key_cong_set:
  "k1 x = k2 x \<Longrightarrow> (\<And>z. z \<in> set zs \<Longrightarrow> k1 z = k2 z)
     \<Longrightarrow> insort_key k1 x zs = insort_key k2 x zs"
  by (induction zs) auto

lemma sort_key_cong_set:
  "(\<And>z. z \<in> set zs \<Longrightarrow> k1 z = k2 z) \<Longrightarrow> sort_key k1 zs = sort_key k2 zs"
proof (induction zs)
  case Nil then show ?case by simp
next
  case (Cons z zs)
  then have "sort_key k1 zs = sort_key k2 zs" by simp
  moreover have "insort_key k1 z (sort_key k2 zs) = insort_key k2 z (sort_key k2 zs)"
    using Cons.prems by (intro insort_key_cong_set) auto
  ultimately show ?case by simp
qed

lemma zip_index_nth:
  "p \<in> set (zip (map f rows) [0..<length rows]) \<Longrightarrow> fst p = f (rows ! snd p)"
  by (auto simp: set_zip)

lemma map_nth_zip_index:
  "map (\<lambda>p. rows ! snd p) (zip (map f rows) [0..<length rows]) = rows"
  by (rule nth_equalityI) auto

text \<open>Taking the rows in the order of \<open>argsort\<close> of a column sorts the rows by that column.\<close>

lemma take_argsort:
  "map (\<lambda>i. rows ! i) (argsort (map f rows)) = sort_key (\<lambda>r. sortkey (f r)) rows"
proof -
  let ?zs = "zip (map f rows) [0..<length rows]"
  have "sort_key (\<lambda>p. sortkey (fst p)) ?zs = sort_key (\<lambda>p. sortkey (f (rows ! snd p))) ?zs"
    by (rule sort_key_cong_set) (simp add: zip_index_nth)
  then have "map (\<lambda>i. rows ! i) (argsort (map f rows))
      = map (\<lambda>p. rows ! snd p) (sort_key (\<lambda>p. sortkey (f (rows ! snd p))) ?zs)"
    by (simp add: argsort_def)
  also have "\<dots> = sort_key (\<lambda>r. sortkey (f r)) (map (\<lambda>p. rows ! snd p) ?zs)"
    by (rule sort_key_map[where h = "\<lambda>p. rows ! snd p" and k = "\<lambda>r. sortkey (f r)"])
  finally show ?thesis by (simp add: map_nth_zip_index)
qed

lemma set_argsort: "set (argsort ks) = {0..<length ks}"
proof -
  have "map snd (zip ks [0..<length ks]) = [0..<length ks]"
    by (rule map_snd_zip) simp
  then have "set [0..<length ks] = snd ` set (zip ks [0..<length ks])"
    by (metis set_map)
  then show ?thesis by (simp add: argsort_def)
qed

lemma argsort_in_range: "list_all (\<lambda>i. i < length ks) (argsort ks)"
  by (simp add: list_all_iff set_argsort)

lemma inj_sortkey: "inj sortkey"
proof (rule injI)
  fix x y assume "sortkey x = sortkey y"
  then show "x = y" by (cases x; cases y) auto
qed

lemma mergeable_sym: "mergeable A B \<Longrightarrow> mergeable B A"
  by (auto simp: mergeable_def nd_allequal_sym[of "dataloc B"]
      nd_allequal_sym[of "sensorloc B"])

lemma sortkey_le: "sortkey a \<le> sortkey b \<longleftrightarrow> isnan b \<or> vle a b"
  by (cases a; cases b) auto

lemma promote_sym: "promote a b = promote b a"
  by (auto simp: promote_def)

text \<open>
  When the four assertions hold and both time arrays normalise, the new time axis is
  the two interval tables, one after the other, sorted by start.
\<close>

lemma add_times_times:
  assumes "mergeable A B"
    and "timerepair (times A) = Inr (A2 dt1 2 r1)" and "timerepair (times B) = Inr (A2 dt2 2 r2)"
  shows "times (fst (add_times A B))
         = A2 (promote dt1 dt2) 2 (sort_key (\<lambda>r. sortkey (r ! 0)) (r1 @ r2))"
proof -
  have tr: "take_rows (argsort (map (\<lambda>r. r ! 0) (r1 @ r2))) (A2 dt 2 (r1 @ r2))
      = Inr (A2 dt 2 (sort_key (\<lambda>r. sortkey (r ! 0)) (r1 @ r2)))" for dt
    using argsort_in_range[of "map (\<lambda>r. r ! 0) (r1 @ r2)"]
      take_argsort[of "r1 @ r2" "\<lambda>r. r ! 0"]
    by simp
  show ?thesis
    using assms tr
    by (simp add: add_times_def mergeable_def ebind_def vstack_def Let_def)
qed

lemma sorted_rows:
  "sorted_wrt (\<lambda>r s. isnan (s ! 0) \<or> vle (r ! 0) (s ! 0))
     (sort_key (\<lambda>r. sortkey (r ! 0)) rows)"
proof -
  have "sorted (map (\<lambda>r. sortkey (r ! 0)) (sort_key (\<lambda>r. sortkey (r ! 0)) rows))"
    by (rule sorted_sort_key)
  then show ?thesis by (simp add: sorted_map sortkey_le)
qed

lemma sorted_starts:
  "map (\<lambda>r. r ! 0) (sort_key (\<lambda>r. sortkey (r ! (0::nat))) (r1 @ r2))
   = map (\<lambda>r. r ! 0) (sort_key (\<lambda>r. sortkey (r ! 0)) (r2 @ r1))"
proof -
  let ?k = "\<lambda>r. sortkey (r ! (0::nat))"
  have 1: "sort (map ?k (r1 @ r2)) = map ?k (sort_key ?k (r1 @ r2))"
    by (rule properties_for_sort) (simp_all add: sorted_sort_key del: map_append)
  have 2: "sort (map ?k (r1 @ r2)) = map ?k (sort_key ?k (r2 @ r1))"
    by (rule properties_for_sort) (simp_all add: sorted_sort_key union_commute del: map_append)
  from 1 2 have "map sortkey (map (\<lambda>r. r ! 0) (sort_key ?k (r1 @ r2)))
      = map sortkey (map (\<lambda>r. r ! 0) (sort_key ?k (r2 @ r1)))"
    by (simp add: comp_def)
  then show ?thesis using inj_sortkey by (simp only: inj_map_eq_map)
qed

lemma sort_rows_commute:
  assumes "\<forall>r\<in>set (r1 @ r2). \<forall>s\<in>set (r1 @ r2). f r = f s \<longrightarrow> r = s"
  shows "sort_key (\<lambda>r. sortkey (f r)) (r1 @ r2) = sort_key (\<lambda>r. sortkey (f r)) (r2 @ r1)"
proof (rule sort_key_inj_key_eq)
  show "mset (r1 @ r2) = mset (sort_key (\<lambda>r. sortkey (f r)) (r2 @ r1))" by simp
  show "inj_on (\<lambda>r. sortkey (f r)) (set (r1 @ r2))"
    using assms inj_sortkey by (auto simp: inj_on_def dest: injD)
  show "sorted (map (\<lambda>r. sortkey (f r)) (sort_key (\<lambda>r. sortkey (f r)) (r2 @ r1)))"
    by (rule sorted_sort_key)
qed

text \<open>
  C5, as the claim states it, fails: two mergeable datasets whose single intervals start
  at the same time, [0, 5] and [0, 7], give the time axis [0, 5], [0, 7] in one order of
  the call and [0, 7], [0, 5] in the other. The column of starts that is sorted is
  [0, 0] in both calls, so the two results differ whatever order the sort gives to equal
  starts.
\<close>

theorem add_times_commute_counterexample:
  "mergeable (example_dataset ''ne'' (Fin 4) (A2 Float64 2 [[Fin 0, Fin 5]]))
             (example_dataset ''ne'' (Fin 9) (A2 Float64 2 [[Fin 0, Fin 7]])) \<and>
   times (fst (add_times (example_dataset ''ne'' (Fin 4) (A2 Float64 2 [[Fin 0, Fin 5]]))
                         (example_dataset ''ne'' (Fin 9) (A2 Float64 2 [[Fin 0, Fin 7]]))))
     = A2 Float64 2 [[Fin 0, Fin 5], [Fin 0, Fin 7]] \<and>
   times (fst (add_times (example_dataset ''ne'' (Fin 9) (A2 Float64 2 [[Fin 0, Fin 7]]))
                         (example_dataset ''ne'' (Fin 4) (A2 Float64 2 [[Fin 0, Fin 5]]))))
     = A2 Float64 2 [[Fin 0, Fin 7], [Fin 0, Fin 5]] \<and>
   snd (add_times (example_dataset ''ne'' (Fin 4) (A2 Float64 2 [[Fin 0, Fin 5]]))
                  (example_dataset ''ne'' (Fin 9) (A2 Float64 2 [[Fin 0, Fin 7]]))) = None \<and>
   snd (add_times (example_dataset ''ne'' (Fin 9) (A2 Float64 2 [[Fin 0, Fin 7]]))
                  (example_dataset ''ne'' (Fin 4) (A2 Float64 2 [[Fin 0, Fin 5]]))) = None"
  by (simp add: add_times_def mergeable_def example_dataset_def keys_def dict_get_def
      ebind_def nd_allequal_def ma_allequal_def masked_equal_def vstack_def argsort_def
      promote_def Let_def)

text \<open>
  C5, amended. \<^verbatim>\<open>add_times\<close> fails with its first assertion, and leaves the dataset as
  it was, when the sets of field names differ. For two datasets that satisfy the four
  assertions and whose time arrays normalise, the time axes that \<open>A.add_times(B)\<close> and
  \<open>B.add_times(A)\<close> produce have the same element type, hold the same rows with the same
  multiplicities (the rows of both interval tables), are both sorted by start with
  not-a-number last, and have the same column of starts; they can differ only in the
  order of rows of equal start. When rows of equal start are equal rows, the two time
  axes are equal.
\<close>

theorem add_times_commute:
  "(set (keys (data A)) \<noteq> set (keys (data B)) \<longrightarrow>
      add_times A B = (A, Some (AssertionError ''Data must have the same names.''))) \<and>
   (mergeable A B \<and> timerepair (times A) = Inr (A2 dt1 2 r1) \<and>
    timerepair (times B) = Inr (A2 dt2 2 r2) \<longrightarrow>
      (\<exists>dt TA TB.
         times (fst (add_times A B)) = A2 dt 2 TA \<and>
         times (fst (add_times B A)) = A2 dt 2 TB \<and>
         mset TA = mset r1 + mset r2 \<and> mset TB = mset r1 + mset r2 \<and>
         sorted_wrt (\<lambda>r s. isnan (s ! 0) \<or> vle (r ! 0) (s ! 0)) TA \<and>
         sorted_wrt (\<lambda>r s. isnan (s ! 0) \<or> vle (r ! 0) (s ! 0)) TB \<and>
         map (\<lambda>r. r ! 0) TA = map (\<lambda>r. r ! 0) TB)) \<and>
   (mergeable A B \<and> timerepair (times A) = Inr (A2 dt1 2 r1) \<and>
    timerepair (times B) = Inr (A2 dt2 2 r2) \<and>
    (\<forall>r\<in>set (r1 @ r2). \<forall>s\<in>set (r1 @ r2). r ! 0 = s ! 0 \<longrightarrow> r = s) \<longrightarrow>
      times (fst (add_times A B)) = times (fst (add_times B A)))"
proof (intro conjI impI)
  assume "set (keys (data A)) \<noteq> set (keys (data B))"
  then show "add_times A B = (A, Some (AssertionError ''Data must have the same names.''))"
    by (simp add: add_times_def)
next
  assume h: "mergeable A B \<and> timerepair (times A) = Inr (A2 dt1 2 r1) \<and>
    timerepair (times B) = Inr (A2 dt2 2 r2)"
  then have m: "mergeable A B" and m': "mergeable B A"
    and t1: "timerepair (times A) = Inr (A2 dt1 2 r1)"
    and t2: "timerepair (times B) = Inr (A2 dt2 2 r2)"
    by (auto intro: mergeable_sym)
  let ?TA = "sort_key (\<lambda>r. sortkey (r ! 0)) (r1 @ r2)"
  let ?TB = "sort_key (\<lambda>r. sortkey (r ! 0)) (r2 @ r1)"
  have a: "times (fst (add_times A B)) = A2 (promote dt1 dt2) 2 ?TA"
    by (rule add_times_times[OF m t1 t2])
  have b: "times (fst (add_times B A)) = A2 (promote dt1 dt2) 2 ?TB"
    using add_times_times[OF m' t2 t1] by (simp add: promote_sym)
  have c: "mset ?TA = mset r1 + mset r2" "mset ?TB = mset r1 + mset r2" by simp_all
  have d: "sorted_wrt (\<lambda>r s. isnan (s ! 0) \<or> vle (r ! 0) (s ! 0)) ?TA"
    "sorted_wrt (\<lambda>r s. isnan (s ! 0) \<or> vle (r ! 0) (s ! 0)) ?TB"
    by (rule sorted_rows)+
  have e: "map (\<lambda>r. r ! 0) ?TA = map (\<lambda>r. r ! 0) ?TB" by (rule sorted_starts)
  from a b c d e show "\<exists>dt TA TB.
         times (fst (add_times A B)) = A2 dt 2 TA \<and>
         times (fst (add_times B A)) = A2 dt 2 TB \<and>
         mset TA = mset r1 + mset r2 \<and> mset TB = mset r1 + mset r2 \<and>
         sorted_wrt (\<lambda>r s. isnan (s ! 0) \<or> vle (r ! 0) (s ! 0)) TA \<and>
         sorted_wrt (\<lambda>r s. isnan (s ! 0) \<or> vle (r ! 0) (s ! 0)) TB \<and>
         map (\<lambda>r. r ! 0) TA = map (\<lambda>r. r ! 0) TB"
    by blast
next
  assume h: "mergeable A B \<and> timerepair (times A) = Inr (A2 dt1 2 r1) \<and>
    timerepair (times B) = Inr (A2 dt2 2 r2) \<and>
    (\<forall>r\<in>set (r1 @ r2). \<forall>s\<in>set (r1 @ r2). r ! 0 = s ! 0 \<longrightarrow> r = s)"
  then have m: "mergeable A B" and m': "mergeable B A"
    and t1: "timerepair (times A) = Inr (A2 dt1 2 r1)"
    and t2: "timerepair (times B) = Inr (A2 dt2 2 r2)"
    and d: "\<forall>r\<in>set (r1 @ r2). \<forall>s\<in>set (r1 @ r2). r ! 0 = s ! 0 \<longrightarrow> r = s"
    by (auto intro: mergeable_sym)
  have "times (fst (add_times A B))
        = A2 (promote dt1 dt2) 2 (sort_key (\<lambda>r. sortkey (r ! 0)) (r1 @ r2))"
    by (rule add_times_times[OF m t1 t2])
  moreover have "times (fst (add_times B A))
        = A2 (promote dt1 dt2) 2 (sort_key (\<lambda>r. sortkey (r ! 0)) (r2 @ r1))"
    using add_times_times[OF m' t2 t1] by (simp add: promote_sym)
  ultimately show "times (fst (add_times A B)) = times (fst (add_times B A))"
    using sort_rows_commute[OF d] by simp
qed

text \<open>
  Datasets of different field names; the two datasets whose intervals both start at 0,
  whose merged time axes hold the same rows in different orders; and two datasets with
  a repeated row, whose merged time axes are equal.
\<close>

theorem add_times_commute_witness:
  "set (keys (data (example_dataset ''ne'' (Fin 4) (A2 Float64 2 [[Fin 0, Fin 5]]))))
     \<noteq> set (keys (data (example_dataset ''te'' (Fin 9) (A2 Float64 2 [[Fin 10, Fin 17]])))) \<and>
   add_times (example_dataset ''ne'' (Fin 4) (A2 Float64 2 [[Fin 0, Fin 5]]))
             (example_dataset ''te'' (Fin 9) (A2 Float64 2 [[Fin 10, Fin 17]]))
     = (example_dataset ''ne'' (Fin 4) (A2 Float64 2 [[Fin 0, Fin 5]]),
        Some (AssertionError ''Data must have the same names.'')) \<and>
   mergeable (example_dataset ''ne'' (Fin 4) (A2 Float64 2 [[Fin 0, Fin 5]]))
             (example_dataset ''ne'' (Fin 9) (A2 Float64 2 [[Fin 0, Fin 7]])) \<and>
   (\<exists>dt TA TB.
      times (fst (add_times (example_dataset ''ne'' (Fin 4) (A2 Float64 2 [[Fin 0, Fin 5]]))
                            (example_dataset ''ne'' (Fin 9) (A2 Float64 2 [[Fin 0, Fin 7]]))))
        = A2 dt 2 TA \<and>
      times (fst (add_times (example_dataset ''ne'' (Fin 9) (A2 Float64 2 [[Fin 0, Fin 7]]))
                            (example_dataset ''ne'' (Fin 4) (A2 Float64 2 [[Fin 0, Fin 5]]))))
        = A2 dt 2 TB \<and>
      mset TA = mset [[Fin 0, Fin 5]] + mset [[Fin 0, Fin 7]] \<and>
      mset TB = mset [[Fin 0, Fin 5]] + mset [[Fin 0, Fin 7]] \<and>
      map (\<lambda>r. r ! 0) TA = map (\<lambda>r. r ! 0) TB) \<and>
   mergeable (example_dataset ''ne'' (Fin 4)
                (A2 Float64 2 [[Fin 10, Fin 20], [Fin 30, Fin 35]]))
             (example_dataset ''ne'' (Fin 9) (A1 Int64 [Fin 0, Fin 10])) \<and>
   timerepair (A1 Int64 [Fin 0, Fin 10])
     = Inr (A2 Int64 2 [[Fin 0, Fin 10], [Fin 10, Fin 20]]) \<and>
   times (fst (add_times
       (example_dataset ''ne'' (Fin 4) (A2 Float64 2 [[Fin 10, Fin 20], [Fin 30, Fin 35]]))
       (example_dataset ''ne'' (Fin 9) (A1 Int64 [Fin 0, Fin 10]))))
     = times (fst (add_times
       (example_dataset ''ne'' (Fin 9) (A1 Int64 [Fin 0, Fin 10]))
       (example_dataset ''ne'' (Fin 4) (A2 Float64 2 [[Fin 10, Fin 20], [Fin 30, Fin 35]]))))"
proof -
  let ?A = "example_dataset ''ne'' (Fin 4) (A2 Float64 2 [[Fin 0, Fin 5]])"
  let ?B = "example_dataset ''ne'' (Fin 9) (A2 Float64 2 [[Fin 0, Fin 7]])"
  let ?C = "example_dataset ''te'' (Fin 9) (A2 Float64 2 [[Fin 10, Fin 17]])"
  let ?D = "example_dataset ''ne'' (Fin 4) (A2 Float64 2 [[Fin 10, Fin 20], [Fin 30, Fin 35]])"
  let ?E = "example_dataset ''ne'' (Fin 9) (A1 Int64 [Fin 0, Fin 10])"
  have k: "set (keys (data ?A)) \<noteq> set (keys (data ?C))"
    by (simp add: example_dataset_def keys_def)
  have m: "mergeable (example_dataset ''ne'' v t) (example_dataset ''ne'' w u)" for v w t u
    by (simp add: mergeable_def example_dataset_def keys_def nd_allequal_def
        ma_allequal_def masked_equal_def)
  have t1: "timerepair (times ?A) = Inr (A2 Float64 2 [[Fin 0, Fin 5]])"
    and t2: "timerepair (times ?B) = Inr (A2 Float64 2 [[Fin 0, Fin 7]])"
    and t3: "timerepair (times ?D) = Inr (A2 Float64 2 [[Fin 10, Fin 20], [Fin 30, Fin 35]])"
    by (simp_all add: example_dataset_def)
  have t4: "timerepair (A1 Int64 [Fin 0, Fin 10])
            = Inr (A2 Int64 2 [[Fin 0, Fin 10], [Fin 10, Fin 20]])"
    by (simp add: timerepair_flat_def Let_def column_stack_def mean_def diff_def vsum_def
        roll_left_def vsub_def vdivn_def ebind_def trunc_def)
  then have t4': "timerepair (times ?E) = Inr (A2 Int64 2 [[Fin 0, Fin 10], [Fin 10, Fin 20]])"
    by (simp add: example_dataset_def)
  have d: "\<forall>r\<in>set ([[Fin 10, Fin 20], [Fin 30, Fin 35]] @ [[Fin 0, Fin 10], [Fin 10, Fin 20]]).
           \<forall>s\<in>set ([[Fin 10, Fin 20], [Fin 30, Fin 35]] @ [[Fin 0, Fin 10], [Fin 10, Fin 20]]).
             r ! 0 = s ! 0 \<longrightarrow> r = s"
    by simp
  from add_times_commute[of ?A ?C] k
  have 1: "add_times ?A ?C = (?A, Some (AssertionError ''Data must have the same names.''))"
    by blast
  from add_times_commute[of ?A ?B Float64 "[[Fin 0, Fin 5]]" Float64 "[[Fin 0, Fin 7]]"]
    m t1 t2
  have 2: "\<exists>dt TA TB.
      times (fst (add_times ?A ?B)) = A2 dt 2 TA \<and> times (fst (add_times ?B ?A)) = A2 dt 2 TB \<and>
      mset TA = mset [[Fin 0, Fin 5]] + mset [[Fin 0, Fin 7]] \<and>
      mset TB = mset [[Fin 0, Fin 5]] + mset [[Fin 0, Fin 7]] \<and>
      map (\<lambda>r. r ! 0) TA = map (\<lambda>r. r ! 0) TB"
    by blast
  from add_times_commute[of ?D ?E Float64 "[[Fin 10, Fin 20], [Fin 30, Fin 35]]" Int64
      "[[Fin 0, Fin 10], [Fin 10, Fin 20]]"] m t3 t4' d
  have 3: "times (fst (add_times ?D ?E)) = times (fst (add_times ?E ?D))"
    by blast
  from k 1 m[of "Fin 4" _ "Fin 9"] 2 t4 3 show ?thesis by (intro conjI)
qed

section \<open>Properties of \<^verbatim>\<open>interpolate\<close>\<close>

lemma dict_get_append:
  "k \<notin> set (keys pre) \<Longrightarrow> dict_get (pre @ (k, f) # suf) k = Inr f"
  by (induction pre) (auto simp: dict_get_def keys_def)

lemma dict_set_append:
  "k \<notin> set (keys pre) \<Longrightarrow> dict_set (pre @ (k, f) # suf) k v = pre @ (k, v) # suf"
  by (induction pre) (auto simp: keys_def)


subsection \<open>The loops of the full path\<close>

lemma keys_Cons: "keys ((k, f) # d) = k # keys d"
  by (simp add: keys_def)


lemma step_result:
  "\<not> step_raises X tms cur new m fv bm (k, f) t \<Longrightarrow>
   interp_step X tms cur new m fv bm k f t
     = Inr (step_column X tms cur new m fv bm (k, f) t,
            step_warnings X tms cur new m fv bm (k, f) t)"
  by (cases "interp_step X tms cur new m fv bm k f t")
    (simp_all add: step_raises_def step_column_def step_warnings_def)

lemma interp_times_ok:
  "\<forall>t\<in>set ts. \<not> step_raises X tms cur new m fv bm (k, f) t \<Longrightarrow>
   interp_times X tms cur new m fv bm k f ts
     = (concat (map (step_warnings X tms cur new m fv bm (k, f)) ts),
        Inr (map (step_column X tms cur new m fv bm (k, f)) ts))"
  by (induction ts) (simp_all add: step_result)


lemma from_columns_steps:
  "(k, from_columns (len new) (map (step_column X tms cur new m fv bm (k, f)) [0..<len tms]))
   = interpolated X tms cur new m fv bm (k, f)"
  by (simp add: from_columns_def interpolated_def comp_def)

lemma interp_fields_ok:
  assumes "distinct (keys (dn @ todo))"
    and "\<forall>kf\<in>set todo. \<forall>t<len tms. \<not> step_raises X tms cur new m fv bm kf t"
  shows "interp_fields X tms cur new m fv bm (keys todo) (dn @ todo)
         = (dn @ map (interpolated X tms cur new m fv bm) todo,
            concat (map (\<lambda>kf. field_warnings X tms cur new m fv bm kf (len tms)) todo),
            None)"
  using assms
proof (induction todo arbitrary: dn)
  case Nil
  then show ?case by (simp add: keys_def)
next
  case (Cons kf todo)
  obtain k f where kf: "kf = (k, f)" by (cases kf)
  from Cons.prems(1) have k: "k \<notin> set (keys dn)" by (auto simp: keys_def kf)
  have ok: "\<forall>t\<in>set [0..<len tms]. \<not> step_raises X tms cur new m fv bm (k, f) t"
    using Cons.prems(2) by (simp add: kf)
  have d: "distinct (keys ((dn @ [interpolated X tms cur new m fv bm (k, f)]) @ todo))"
    using Cons.prems(1) by (simp add: keys_def kf interpolated_def)
  have r: "\<forall>kf\<in>set todo. \<forall>t<len tms. \<not> step_raises X tms cur new m fv bm kf t"
    using Cons.prems(2) by simp
  have s: "dict_set (dn @ (k, f) # todo) k
             (from_columns (len new) (map (step_column X tms cur new m fv bm (k, f)) [0..<len tms]))
           = (dn @ [interpolated X tms cur new m fv bm (k, f)]) @ todo"
    using dict_set_append[OF k] from_columns_steps[of k new X tms cur m fv bm f] by simp
  show ?case
    using Cons.IH[OF d r]
    by (simp add: kf keys_Cons dict_get_append[OF k] interp_times_ok[OF ok] s
        field_warnings_def del: append_assoc)
qed


lemma interpolate_full:
  assumes "length (shape new_coords) = 2 \<and> shape new_coords ! 1 = 3"
    and "method \<in> set [''linear'', ''nearest'', ''cubic'']"
    and "ebind (changecoords X self newcoordname) (\<lambda>curcoords.
           if twodinterp then twod_reduce curcoords new_coords
           else Inr (curcoords, new_coords)) = Inr (cur, new)"
    and "ikey \<notin> Some ` set (keys (data self))"
  shows "interpolate X self new_coords newcoordname method fill_value twodinterp ikey beammask =
         (case interp_fields X (times self) cur new method fill_value beammask
                 (keys (data self)) (data self) of
            (d, ws, Some e) \<Rightarrow> (self\<lparr>data := d\<rparr>, ws, Inl e)
          | (d, ws, None) \<Rightarrow>
              (self\<lparr>data := d, dataloc := new_coords, coordnames := newcoordname\<rparr>,
               ws, Inr None))"
proof -
  have c: "(case ikey of None \<Rightarrow> True | Some k \<Rightarrow> k \<notin> set (keys (data self)))"
    using assms(4) by (cases ikey) auto
  show ?thesis
    unfolding interpolate_def using assms(1,2) c by (simp add: assms(3))
qed


lemma interpolate_unknown:
  assumes "k \<notin> set (keys (data self))"
  shows "interpolate X self nc ncn m fv td (Some k) bm = interpolate X self nc ncn m fv td None bm"
  using assms unfolding interpolate_def by (simp split: sum.splits)

lemma interpolate_full_no_array:
  assumes "ikey = None \<or> the ikey \<notin> set (keys (data self))"
  shows "snd (snd (interpolate X self nc ncn m fv td ikey bm)) \<noteq> Inr (Some a)"
proof -
  obtain s w r where i: "interpolate X self nc ncn m fv td ikey bm = (s, w, r)"
    by (cases "interpolate X self nc ncn m fv td ikey bm") auto
  from assms have c: "(case ikey of None \<Rightarrow> True | Some k \<Rightarrow> k \<notin> set (keys (data self)))"
    by (cases ikey) auto
  have "r \<noteq> Inr (Some a)"
    using i c unfolding interpolate_def
    by (auto split: if_splits sum.splits prod.splits option.splits)
  with i show ?thesis by simp
qed

lemma interpolate_known_readonly:
  assumes "k \<in> set (keys (data self))"
  shows "fst (interpolate X self nc ncn m fv td (Some k) bm) = self \<and>
         fst (snd (interpolate X self nc ncn m fv td (Some k) bm)) = [] \<and>
         snd (snd (interpolate X self nc ncn m fv td (Some k) bm)) \<noteq> Inr None"
  using assms unfolding interpolate_def by (auto split: sum.splits)

lemmas interpolate_eval = interpolate_def two_step_dataset_def three_targets_def example_ext_def
      changecoords_def lower_def lower_char_def keys_def dict_get_def ebind_def
      interp_step_def bool_index_def pick_def from_columns_def no_data_warning_def Let_def
      assign_column_def vsum_def

subsection \<open>A failure in the loop over the fields\<close>



subsection \<open>A selector that is not a key\<close>

text \<open>
  C10, as the claim states it, fails: a call with a selector that is not a key can raise,
  and then replaces nothing or only a part. With a method that is not accepted the
  assertion fails and the dataset is as before; with a first field of two axes and a
  second field of one axis, the first field is rewritten, then \<^verbatim>\<open>ValueError\<close> is
  raised, and the second field, the locations and the coordinate name are as before.
\<close>

theorem interpolate_unknown_key_counterexample:
  "interpolate example_ext (two_step_dataset [(''a'', F2 2 [[Fin 1, Fin 2], [Fin 3, NaN]])])
     three_targets ''Spherical'' ''bogus'' NaN False (Some ''zz'') (BScalar True)
   = (two_step_dataset [(''a'', F2 2 [[Fin 1, Fin 2], [Fin 3, NaN]])], [],
      Inl (AssertionError ''method needs to be linear, nearest, cubic'')) \<and>
   interpolate example_ext
     (two_step_dataset [(''a'', F2 2 [[Fin 1, Fin 2], [Fin 3, NaN]]), (''b'', F1 [Fin 1, Fin 2])])
     three_targets ''Spherical'' ''linear'' (Fin (- 1)) False (Some ''zz'') (BScalar True)
   = (\<lparr>data = [(''a'', F2 2 [[Fin 6, Fin 3], [Fin 7, Fin 4], [Fin (- 1), Fin (- 1)]]),
               (''b'', F1 [Fin 1, Fin 2])],
       coordnames = ''Cartesian'',
       dataloc = A2 Float64 3 [[Fin 0, Fin 0, Fin 0], [Fin 1, Fin 1, Fin 1]],
       sensorloc = A1 Float64 [NaN, NaN, NaN],
       times = A2 Float64 2 [[Fin 0, Fin 60], [Fin 60, Fin 120]], expdesc = ''''\<rparr>,
      [], Inl (ValueError ''incorrect data matrix shape''))"
  by (simp add: interpolate_eval)

text \<open>
  C10, amended. A selector \<^verbatim>\<open>ikey\<close> that is not a key of \<^verbatim>\<open>self.data\<close> gives exactly
  the call without a selector: the same final dataset, the same warnings and the same
  outcome, which may be an exception. No array is returned. When the assertions and the
  change of coordinates pass and no pass of the inner loop raises, the call returns
  \<open>None\<close> and leaves the dataset with every field replaced by its new array (one row
  per new location, one column per time step, each column the result of the pass for
  that time step), the new locations and the new coordinate name. A selector that is a
  key leaves the dataset as it was.
\<close>

theorem interpolate_unknown_key:
  assumes "k \<notin> set (keys (data self))"
  shows "interpolate X self new_coords newcoordname method fill_value twodinterp (Some k) beammask
           = interpolate X self new_coords newcoordname method fill_value twodinterp None beammask \<and>
         (\<forall>a. snd (snd (interpolate X self new_coords newcoordname method fill_value twodinterp
                          (Some k) beammask)) \<noteq> Inr (Some a)) \<and>
         (length (shape new_coords) = 2 \<and> shape new_coords ! 1 = 3 \<and>
          method \<in> set [''linear'', ''nearest'', ''cubic''] \<and>
          ebind (changecoords X self newcoordname) (\<lambda>curcoords.
             if twodinterp then twod_reduce curcoords new_coords
             else Inr (curcoords, new_coords)) = Inr (cur, new) \<and>
          distinct (keys (data self)) \<and>
          (\<forall>kf\<in>set (data self). \<forall>t<len (times self).
             \<not> step_raises X (times self) cur new method fill_value beammask kf t) \<longrightarrow>
          interpolate X self new_coords newcoordname method fill_value twodinterp (Some k) beammask
            = (self\<lparr>data := map (interpolated X (times self) cur new method fill_value beammask)
                              (data self),
                    dataloc := new_coords, coordnames := newcoordname\<rparr>,
               concat (map (\<lambda>kf. field_warnings X (times self) cur new method fill_value beammask
                                   kf (len (times self))) (data self)),
               Inr None)) \<and>
         (\<forall>k'\<in>set (keys (data self)).
            fst (interpolate X self new_coords newcoordname method fill_value twodinterp (Some k')
                   beammask) = self)"
proof -
  have 1: "interpolate X self new_coords newcoordname method fill_value twodinterp (Some k) beammask
           = interpolate X self new_coords newcoordname method fill_value twodinterp None beammask"
    using assms by (rule interpolate_unknown)
  have 2: "snd (snd (interpolate X self new_coords newcoordname method fill_value twodinterp
                          (Some k) beammask)) \<noteq> Inr (Some a)" for a
    using assms by (intro interpolate_full_no_array) simp
  have 3: "interpolate X self new_coords newcoordname method fill_value twodinterp (Some k) beammask
            = (self\<lparr>data := map (interpolated X (times self) cur new method fill_value beammask)
                              (data self),
                    dataloc := new_coords, coordnames := newcoordname\<rparr>,
               concat (map (\<lambda>kf. field_warnings X (times self) cur new method fill_value beammask
                                   kf (len (times self))) (data self)),
               Inr None)"
    if h: "length (shape new_coords) = 2 \<and> shape new_coords ! 1 = 3 \<and>
          method \<in> set [''linear'', ''nearest'', ''cubic''] \<and>
          ebind (changecoords X self newcoordname) (\<lambda>curcoords.
             if twodinterp then twod_reduce curcoords new_coords
             else Inr (curcoords, new_coords)) = Inr (cur, new) \<and>
          distinct (keys (data self)) \<and>
          (\<forall>kf\<in>set (data self). \<forall>t<len (times self).
             \<not> step_raises X (times self) cur new method fill_value beammask kf t)"
  proof -
    from h have a: "length (shape new_coords) = 2 \<and> shape new_coords ! 1 = 3"
      and b: "method \<in> set [''linear'', ''nearest'', ''cubic'']"
      and c: "ebind (changecoords X self newcoordname) (\<lambda>curcoords.
             if twodinterp then twod_reduce curcoords new_coords
             else Inr (curcoords, new_coords)) = Inr (cur, new)"
      and d: "distinct (keys ([] @ data self))"
      and e: "\<forall>kf\<in>set (data self). \<forall>t<len (times self).
             \<not> step_raises X (times self) cur new method fill_value beammask kf t"
      by simp_all
    have i: "Some k \<notin> Some ` set (keys (data self))" using assms by auto
    show ?thesis
      using interp_fields_ok[OF d e] by (simp add: interpolate_full[OF a b c i])
  qed
  have 4: "fst (interpolate X self new_coords newcoordname method fill_value twodinterp (Some k')
                   beammask) = self" if "k' \<in> set (keys (data self))" for k'
    using interpolate_known_readonly[OF that] by blast
  from 1 2 3 4 show ?thesis by blast
qed

subsection \<open>A time step without finite sample\<close>







subsection \<open>Concrete calls\<close>

lemma all_less_2: "(\<forall>t<Suc (Suc 0). P t) \<longleftrightarrow> P 0 \<and> P (Suc 0)"
  by (auto simp: less_Suc_eq)

lemmas step_eval = step_raises_def step_column_def step_warnings_def interpolated_def
      field_warnings_def two_step_dataset_def three_targets_def example_ext_def ebind_def
      interp_step_def bool_index_def pick_def no_data_warning_def Let_def assign_column_def
      vsum_def


text \<open>
  A selector that is not a key, on a dataset of two fields with finite samples, an
  infinite one and samples that are not-a-number: both fields are rewritten from what the interpolation routine returns for each time step,
  the locations and the coordinate name are replaced, and nothing is returned; the
  selector of the first field leaves the dataset as it was.
\<close>

theorem interpolate_unknown_key_witness:
  "interpolate example_ext
     (two_step_dataset [(''a'', F2 2 [[Fin 1, Fin 2], [Fin 3, PInf]]),
                        (''b'', F2 2 [[NaN, Fin 2], [NaN, Fin 5]])])
     three_targets ''cartesian'' ''linear'' (Fin (- 1)) False (Some ''zz'') (BScalar True)
   = interpolate example_ext
     (two_step_dataset [(''a'', F2 2 [[Fin 1, Fin 2], [Fin 3, PInf]]),
                        (''b'', F2 2 [[NaN, Fin 2], [NaN, Fin 5]])])
     three_targets ''cartesian'' ''linear'' (Fin (- 1)) False None (BScalar True) \<and>
   interpolate example_ext
     (two_step_dataset [(''a'', F2 2 [[Fin 1, Fin 2], [Fin 3, PInf]]),
                        (''b'', F2 2 [[NaN, Fin 2], [NaN, Fin 5]])])
     three_targets ''cartesian'' ''linear'' (Fin (- 1)) False (Some ''zz'') (BScalar True)
   = (\<lparr>data = [(''a'', F2 2 [[Fin 6, Fin 3], [Fin 7, Fin 4], [Fin (- 1), Fin (- 1)]]),
               (''b'', F2 2 [[NaN, Fin 9], [NaN, Fin 10], [NaN, Fin (- 1)]])],
       coordnames = ''cartesian'', dataloc = three_targets,
       sensorloc = A1 Float64 [NaN, NaN, NaN],
       times = A2 Float64 2 [[Fin 0, Fin 60], [Fin 60, Fin 120]], expdesc = ''''\<rparr>,
      [''No b data available at 1970-01-01 00:00:00+00:00''], Inr None) \<and>
   fst (interpolate example_ext
     (two_step_dataset [(''a'', F2 2 [[Fin 1, Fin 2], [Fin 3, PInf]]),
                        (''b'', F2 2 [[NaN, Fin 2], [NaN, Fin 5]])])
     three_targets ''cartesian'' ''linear'' (Fin (- 1)) False (Some ''a'') (BScalar True))
   = two_step_dataset [(''a'', F2 2 [[Fin 1, Fin 2], [Fin 3, PInf]]),
                       (''b'', F2 2 [[NaN, Fin 2], [NaN, Fin 5]])]"
proof -
  let ?a = "(''a'', F2 2 [[Fin 1, Fin 2], [Fin 3, PInf]])"
  let ?b = "(''b'', F2 2 [[NaN, Fin 2], [NaN, Fin 5]])"
  let ?S = "two_step_dataset [?a, ?b]"
  have k: "''zz'' \<notin> set (keys (data ?S))" by (simp add: two_step_dataset_def keys_def)
  have ka: "''a'' \<in> set (keys (data ?S))" by (simp add: two_step_dataset_def keys_def)
  have 1: "length (shape three_targets) = 2 \<and> shape three_targets ! 1 = 3"
    by (simp add: three_targets_def)
  have 2: "''linear'' \<in> set [''linear'', ''nearest'', ''cubic'']" by simp
  have 3: "ebind (changecoords example_ext ?S ''cartesian'') (\<lambda>curcoords.
           if False then twod_reduce curcoords three_targets
           else Inr (curcoords, three_targets)) = Inr (dataloc ?S, three_targets)"
    by (simp add: changecoords_def lower_def lower_char_def ebind_def two_step_dataset_def)
  have 5: "distinct (keys (data ?S))" by (simp add: two_step_dataset_def keys_def)
  have 7: "\<forall>kf\<in>set (data ?S). \<forall>t<len (times ?S).
           \<not> step_raises example_ext (times ?S) (dataloc ?S) three_targets ''linear'' (Fin (- 1))
               (BScalar True) kf t"
    by (simp add: step_eval all_less_2)
  note t = interpolate_unknown_key[OF k, of example_ext three_targets "''cartesian''"
      "''linear''" "Fin (- 1)" False "BScalar True" "dataloc ?S" three_targets]
  from t have e: "interpolate example_ext ?S three_targets ''cartesian'' ''linear''
     (Fin (- 1)) False (Some ''zz'') (BScalar True)
   = interpolate example_ext ?S three_targets ''cartesian'' ''linear''
     (Fin (- 1)) False None (BScalar True)"
    by blast
  from t 1 2 3 5 7 have "interpolate example_ext ?S three_targets ''cartesian'' ''linear''
     (Fin (- 1)) False (Some ''zz'') (BScalar True)
   = (?S\<lparr>data := map (interpolated example_ext (times ?S) (dataloc ?S) three_targets
                         ''linear'' (Fin (- 1)) (BScalar True)) (data ?S),
          dataloc := three_targets, coordnames := ''cartesian''\<rparr>,
      concat (map (\<lambda>kf. field_warnings example_ext (times ?S) (dataloc ?S) three_targets
                          ''linear'' (Fin (- 1)) (BScalar True) kf (len (times ?S))) (data ?S)),
      Inr None)"
    by blast
  then have i: "interpolate example_ext ?S three_targets ''cartesian'' ''linear''
     (Fin (- 1)) False (Some ''zz'') (BScalar True)
   = (\<lparr>data = [(''a'', F2 2 [[Fin 6, Fin 3], [Fin 7, Fin 4], [Fin (- 1), Fin (- 1)]]),
               (''b'', F2 2 [[NaN, Fin 9], [NaN, Fin 10], [NaN, Fin (- 1)]])],
       coordnames = ''cartesian'', dataloc = three_targets,
       sensorloc = A1 Float64 [NaN, NaN, NaN],
       times = A2 Float64 2 [[Fin 0, Fin 60], [Fin 60, Fin 120]], expdesc = ''''\<rparr>,
      [''No b data available at 1970-01-01 00:00:00+00:00''], Inr None)"
    by (simp add: step_eval all_less_2)
  from t ka have r: "fst (interpolate example_ext ?S three_targets ''cartesian'' ''linear''
     (Fin (- 1)) False (Some ''a'') (BScalar True)) = ?S"
    by blast
  from e i r show ?thesis by (intro conjI)
qed


end
